theory Spec2Isabelle
  imports Complex_Main
begin

unbundle bit_operations_syntax

section \<open>Data model (src/utils/photoAnalysis.ts, lines 3-23)\<close>

text \<open>
  JavaScript strings are modelled as \<^typ>\<open>string\<close>, one \<^typ>\<open>char\<close> per UTF-16 code
  unit. The strings of the module itself are ASCII; a string that comes from outside is
  taken to lie in the range of \<^typ>\<open>char\<close>.

  The objects that the AI service returns are untyped in the source (\<open>any\<close>). They are
  modelled as typed records: a field is either absent (\<open>None\<close>) or holds a value of the
  type its JSON schema declares. The fields \<open>premiumColors\<close> and \<open>recommendations\<close> are
  declared mandatory by the TypeScript interface, but nothing in the module adds them to an
  AI object that lacks them, so in the model they are optional as well.
\<close>

datatype category = neutral | accent | statement | soft

record ColorResult =
  name :: string
  hex :: string
  description :: string
  category :: "category option"

record SeasonalDetails =
  sd_description :: string
  characteristics :: "string list"
  avoidColors :: "string list"

record AnalysisResult =
  skinTone :: string
  season :: string
  freeColors :: "ColorResult list"
  premiumColors :: "ColorResult list option"
  recommendations :: "string list option"
  makeupTips :: "string list option"
  wardrobeGuide :: "string list option"
  seasonalDetails :: "SeasonalDetails option"

text \<open>A value thrown in JavaScript: an \<open>Error\<close> instance with its message, or anything else.
  The message of a TypeError that the runtime raises is the engine's own; the model fixes
  one text for each, and no statement depends on it.\<close>

datatype thrown = JsError string | NonError

record File =
  file_name :: string
  file_size :: nat
  file_type :: string

subsection \<open>Objects of the external services\<close>

text \<open>A colour of the primary AI object; \<open>color.hex\<close> is read by the repair loop, so its
  absence is modelled (reading \<open>.match\<close> of \<open>undefined\<close> throws a TypeError).\<close>

record ai_color =
  ai_name :: string
  ai_hex :: "string option"
  ai_description :: string

record ai_object =
  o_skinTone :: "string option"
  o_season :: "string option"
  o_freeColors :: "ai_color list option"
  o_recommendations :: "string list option"

text \<open>The settled outcome of \<open>Promise.race([analysisPromise, timeoutPromise])\<close>: the timer
  won, the AI call rejected, or it resolved with a response whose \<open>object\<close> may be missing.\<close>

datatype ai_outcome = RaceTimeout | RaceThrows thrown | RaceResolves "ai_object option"

text \<open>The object of the enrichment call is spread over the basic result, so every key it
  holds overrides the basic one.\<close>

record enh_object =
  e_skinTone :: "string option"
  e_season :: "string option"
  e_freeColors :: "ColorResult list option"
  e_premiumColors :: "ColorResult list option"
  e_recommendations :: "string list option"
  e_makeupTips :: "string list option"
  e_wardrobeGuide :: "string list option"
  e_seasonalDetails :: "SeasonalDetails option"

datatype enh_outcome = EnhThrows thrown | EnhResolves "enh_object option"

text \<open>\<open>blink.storage.upload\<close> rejects, or resolves with a result whose \<open>publicUrl\<close> may be
  missing; \<open>fetch(url, HEAD)\<close> rejects, or resolves with a response whose \<open>ok\<close> flag is read.\<close>

datatype upload_outcome = UploadThrows thrown | UploadReturns "string option"

datatype fetch_outcome = FetchThrows thrown | FetchResponse bool

text \<open>What the pipeline does to the outside world, in order.\<close>

datatype event = UploadAttempt nat | Wait nat

text \<open>One run's environment: the outcome of each upload attempt (by attempt number), of the
  HEAD request and of the two AI calls, and the value \<open>Math.random()\<close> returns at each of
  the two places that can call the fallback generator (each runs at most once per run).\<close>

record env =
  storage_upload :: "nat \<Rightarrow> upload_outcome"
  head_fetch :: fetch_outcome
  ai_primary :: ai_outcome
  ai_enhance :: enh_outcome
  random_basic :: real
  random_top :: real

section \<open>String helpers of the JavaScript runtime\<close>

definition startsWith :: "string \<Rightarrow> string \<Rightarrow> bool" where
  "startsWith s p = (take (length p) s = p)"

definition hexDigitValue :: "char \<Rightarrow> nat option" where
  "hexDigitValue c = map_of
     [(CHR ''0'', 0), (CHR ''1'', 1), (CHR ''2'', 2), (CHR ''3'', 3), (CHR ''4'', 4),
      (CHR ''5'', 5), (CHR ''6'', 6), (CHR ''7'', 7), (CHR ''8'', 8), (CHR ''9'', 9),
      (CHR ''a'', 10), (CHR ''b'', 11), (CHR ''c'', 12), (CHR ''d'', 13), (CHR ''e'', 14),
      (CHR ''f'', 15), (CHR ''A'', 10), (CHR ''B'', 11), (CHR ''C'', 12), (CHR ''D'', 13),
      (CHR ''E'', 14), (CHR ''F'', 15)] c"

definition isHexDigit :: "char \<Rightarrow> bool" where
  "isHexDigit c = (hexDigitValue c \<noteq> None)"

text \<open>The regular expression \<open>/^#[0-9A-Fa-f]{6}$/\<close> (no flags: \<open>$\<close> is the end of input).\<close>

definition matchesHex6 :: "string \<Rightarrow> bool" where
  "matchesHex6 h = (case h of
      [] \<Rightarrow> False
    | c # ds \<Rightarrow> c = CHR ''#'' \<and> length ds = 6 \<and> list_all isHexDigit ds)"

text \<open>\<open>String.prototype.toLowerCase\<close> on ASCII.\<close>

definition toLowerChar :: "char \<Rightarrow> char" where
  "toLowerChar c =
     (case map_of (zip ''ABCDEFGHIJKLMNOPQRSTUVWXYZ'' ''abcdefghijklmnopqrstuvwxyz'') c of
        Some l \<Rightarrow> l
      | None \<Rightarrow> c)"

definition toLowerCase :: "string \<Rightarrow> string" where
  "toLowerCase s = map toLowerChar s"

text \<open>\<open>hex.replace('#', '')\<close>: the first occurrence only.\<close>

fun replaceFirstHash :: "string \<Rightarrow> string" where
  "replaceFirstHash [] = []"
| "replaceFirstHash (c # cs) = (if c = CHR ''#'' then cs else c # replaceFirstHash cs)"

text \<open>\<open>parseInt(s, 16)\<close> on a string that starts with neither white space, a sign nor
  \<open>0x\<close> and has at most thirteen hex digits, so that the value is below \<open>2 ^ 53\<close> and
  exact (the season table holds only such strings): the value of the longest prefix of hex
  digits, \<open>NaN\<close> (\<open>None\<close>) when that prefix is empty.\<close>

definition parseInt16 :: "string \<Rightarrow> int option" where
  "parseInt16 s =
     (let ds = takeWhile isHexDigit s
      in if ds = [] then None
         else Some (foldl (\<lambda>a c. 16 * a + int (case hexDigitValue c of Some v \<Rightarrow> v | None \<Rightarrow> 0)) 0 ds))"

text \<open>The conversion to a 32-bit integer that \<open>>>\<close> and \<open>&\<close> apply to their operands;
  \<open>NaN\<close> becomes 0.\<close>

definition toInt32 :: "int option \<Rightarrow> int" where
  "toInt32 v = (case v of None \<Rightarrow> 0 | Some n \<Rightarrow> (n + 2 ^ 31) mod 2 ^ 32 - 2 ^ 31)"

text \<open>\<open>Number.prototype.toString(16)\<close> and the decimal rendering of a template literal,
  on natural numbers.\<close>

fun toString16 :: "nat \<Rightarrow> string" where
  "toString16 n =
     (if n < 16 then [''0123456789abcdef'' ! n]
      else toString16 (n div 16) @ [''0123456789abcdef'' ! (n mod 16)])"

fun showNat :: "nat \<Rightarrow> string" where
  "showNat n =
     (if n < 10 then [''0123456789'' ! n]
      else showNat (n div 10) @ [''0123456789'' ! (n mod 10)])"

declare toString16.simps [simp del] showNat.simps [simp del]

section \<open>Colour utilities (lines 509-529)\<close>

definition lightenColor :: "string \<Rightarrow> string" where
  "lightenColor h =
     (let num = toInt32 (parseInt16 (replaceFirstHash h));
          amt = 40;
          R = drop_bit 16 num + amt;
          G = (drop_bit 8 num AND 0x00FF) + amt;
          B = (num AND 0x0000FF) + amt
      in CHR ''#'' # drop 1 (toString16 (nat
           (0x1000000 + (if R < 255 then if R < 1 then 0 else R else 255) * 0x10000 +
            (if G < 255 then if G < 1 then 0 else G else 255) * 0x100 +
            (if B < 255 then if B < 1 then 0 else B else 255)))))"

definition darkenColor :: "string \<Rightarrow> string" where
  "darkenColor h =
     (let num = toInt32 (parseInt16 (replaceFirstHash h));
          amt = - 40;
          R = drop_bit 16 num + amt;
          G = (drop_bit 8 num AND 0x00FF) + amt;
          B = (num AND 0x0000FF) + amt
      in CHR ''#'' # drop 1 (toString16 (nat
           (0x1000000 + (if R < 255 then if R < 1 then 0 else R else 255) * 0x10000 +
            (if G < 255 then if G < 1 then 0 else G else 255) * 0x100 +
            (if B < 255 then if B < 1 then 0 else B else 255)))))"

text \<open>The common body of the two functions with the amount as a parameter; the proofs
  evaluate the parsed number once and then this body.\<close>

definition shiftHexNum :: "int \<Rightarrow> int \<Rightarrow> string" where
  "shiftHexNum amt num =
     (let R = drop_bit 16 num + amt;
          G = (drop_bit 8 num AND 0x00FF) + amt;
          B = (num AND 0x0000FF) + amt
      in CHR ''#'' # drop 1 (toString16 (nat
           (0x1000000 + (if R < 255 then if R < 1 then 0 else R else 255) * 0x10000 +
            (if G < 255 then if G < 1 then 0 else G else 255) * 0x100 +
            (if B < 255 then if B < 1 then 0 else B else 255)))))"

section \<open>Fallback generator (lines 375-504)\<close>

definition mkColor :: "string \<Rightarrow> string \<Rightarrow> string \<Rightarrow> category option \<Rightarrow> ColorResult" where
  "mkColor n h d c = \<lparr>name = n, hex = h, description = d, category = c\<rparr>"

definition springColors :: "ColorResult list" where
  "springColors =
     [mkColor ''Coral Pink'' ''#FF7F7F'' ''Vibrant and energizing'' (Some accent),
      mkColor ''Golden Yellow'' ''#FFD700'' ''Bright and cheerful'' (Some statement),
      mkColor ''Peach'' ''#FFCBA4'' ''Soft and flattering'' (Some soft),
      mkColor ''Warm Beige'' ''#F5F5DC'' ''Perfect neutral base'' (Some neutral),
      mkColor ''Turquoise'' ''#40E0D0'' ''Fresh and lively'' (Some accent)]"

definition summerColors :: "ColorResult list" where
  "summerColors =
     [mkColor ''Soft Blue'' ''#87CEEB'' ''Cool and calming'' (Some accent),
      mkColor ''Lavender'' ''#E6E6FA'' ''Gentle and elegant'' (Some soft),
      mkColor ''Rose Pink'' ''#FFC0CB'' ''Romantic and soft'' (Some accent),
      mkColor ''Cool Gray'' ''#D3D3D3'' ''Sophisticated neutral'' (Some neutral),
      mkColor ''Mint Green'' ''#98FB98'' ''Fresh and cool'' (Some soft)]"

definition autumnColors :: "ColorResult list" where
  "autumnColors =
     [mkColor ''Burnt Orange'' ''#CC5500'' ''Rich and warm'' (Some statement),
      mkColor ''Deep Burgundy'' ''#800020'' ''Luxurious and bold'' (Some statement),
      mkColor ''Golden Brown'' ''#B8860B'' ''Earthy and grounding'' (Some neutral),
      mkColor ''Olive Green'' ''#808000'' ''Natural and sophisticated'' (Some accent),
      mkColor ''Warm Cream'' ''#FFFDD0'' ''Soft neutral base'' (Some neutral)]"

definition winterColors :: "ColorResult list" where
  "winterColors =
     [mkColor ''True Red'' ''#FF0000'' ''Bold and striking'' (Some statement),
      mkColor ''Royal Blue'' ''#4169E1'' ''Regal and powerful'' (Some statement),
      mkColor ''Pure White'' ''#FFFFFF'' ''Clean and crisp'' (Some neutral),
      mkColor ''Black'' ''#000000'' ''Classic and elegant'' (Some neutral),
      mkColor ''Emerald Green'' ''#50C878'' ''Vibrant and luxurious'' (Some accent)]"

text \<open>The own properties of the object literal \<open>seasonColors\<close>.\<close>

definition seasonColors :: "string \<Rightarrow> ColorResult list option" where
  "seasonColors = map_of
     [(''Spring'', springColors), (''Summer'', summerColors),
      (''Autumn'', autumnColors), (''Winter'', winterColors)]"

text \<open>\<open>seasonColors[key]\<close> also finds the properties inherited from \<open>Object.prototype\<close>.
  Each of them is a function or an object: truthy, so \<open>|| seasonColors.Spring\<close> does not
  apply, and not iterable, so spreading it throws a TypeError.\<close>

definition objectPrototypeKeys :: "string list" where
  "objectPrototypeKeys =
     [''constructor'', ''__defineGetter__'', ''__defineSetter__'', ''hasOwnProperty'',
      ''__lookupGetter__'', ''__lookupSetter__'', ''isPrototypeOf'', ''propertyIsEnumerable'',
      ''toString'', ''valueOf'', ''__proto__'', ''toLocaleString'']"

definition lightVariant :: "ColorResult \<Rightarrow> ColorResult" where
  "lightVariant color = color
     \<lparr>name := ''Light '' @ name color,
      hex := lightenColor (hex color),
      description := ''Lighter variation of '' @ toLowerCase (name color),
      category := Some soft\<rparr>"

definition deepVariant :: "ColorResult \<Rightarrow> ColorResult" where
  "deepVariant color = color
     \<lparr>name := ''Deep '' @ name color,
      hex := darkenColor (hex color),
      description := ''Deeper variation of '' @ toLowerCase (name color),
      category := Some statement\<rparr>"

text \<open>The array literal of lines 442-458, before \<open>.slice(0, 24)\<close>.\<close>

definition expandedPalette :: "ColorResult list \<Rightarrow> ColorResult list" where
  "expandedPalette baseColors = baseColors @ map lightVariant baseColors @ map deepVariant baseColors"

definition fallbackMakeupTips :: "string \<Rightarrow> string list" where
  "fallbackMakeupTips s =
     [''Use '' @ toLowerCase s @ '' tones for your foundation to complement your undertones'',
      ''Choose lipstick colors that enhance your natural lip color'',
      ''Apply eyeshadow in colors that make your eyes pop'',
      ''Use blush in colors that naturally flush your cheeks'',
      ''Choose eyeliner colors that define without overpowering'',
      ''Select mascara that enhances your natural lash color'',
      ''Use highlighter in tones that complement your skin'',
      ''Choose nail polish colors that coordinate with your palette'']"

definition fallbackWardrobeGuide :: "string list" where
  "fallbackWardrobeGuide =
     [''Build your wardrobe around your best neutral colors'',
      ''Add accent colors through accessories and statement pieces'',
      ''Choose fabrics and textures that complement your season'',
      ''Invest in quality basics in your most flattering neutrals'',
      ''Use your statement colors for special occasions'',
      ''Layer different tones from your palette for depth'',
      ''Choose patterns that incorporate your best colors'',
      ''Select jewelry metals that complement your undertones'',
      ''Consider the lighting when choosing colors for different occasions'',
      ''Mix textures within your color palette for visual interest'']"

definition fallbackSeasonalDetails :: "string \<Rightarrow> SeasonalDetails" where
  "fallbackSeasonalDetails s =
     \<lparr>sd_description = ''Your '' @ s @
        '' season is characterized by specific color harmonies that complement your natural features and bring out your best qualities.'',
      characteristics =
        [''Natural warmth in skin undertones'',
         ''Harmonious color palette that enhances your features'',
         ''Balanced contrast levels that flatter your complexion'',
         ''Colors that make your eyes appear brighter'',
         ''Tones that give your skin a healthy glow''],
      avoidColors =
        [''Colors that clash with your undertones'',
         ''Overly bright or muted shades that wash you out'',
         ''Colors that make you appear tired or pale'',
         ''Tones that compete with your natural coloring'',
         ''Shades that require heavy makeup to look good'']\<rparr>"

definition generateFallbackPremiumData :: "AnalysisResult \<Rightarrow> thrown + AnalysisResult" where
  "generateFallbackPremiumData basicAnalysis =
     (if season basicAnalysis \<in> set objectPrototypeKeys
      then Inl (JsError ''baseColors is not iterable'')
      else
        let baseColors = (case seasonColors (season basicAnalysis) of
                            Some cs \<Rightarrow> cs
                          | None \<Rightarrow> springColors);
            premium = take 24 (expandedPalette baseColors)
        in Inr (basicAnalysis
             \<lparr>premiumColors := Some premium,
              makeupTips := Some (fallbackMakeupTips (season basicAnalysis)),
              wardrobeGuide := Some fallbackWardrobeGuide,
              seasonalDetails := Some (fallbackSeasonalDetails (season basicAnalysis))\<rparr>))"

definition seasons :: "string list" where
  "seasons = [''Spring'', ''Summer'', ''Autumn'', ''Winter'']"

definition fallbackFreeColors :: "ColorResult list" where
  "fallbackFreeColors =
     [mkColor ''Soft Pink'' ''#FFB6C1''
        ''A universally flattering soft pink that works well for most skin tones'' None,
      mkColor ''Warm Beige'' ''#F5F5DC''
        ''A versatile neutral that complements many complexions'' None,
      mkColor ''Light Blue'' ''#ADD8E6''
        ''A gentle blue that brings out natural brightness'' None]"

definition fallbackBasic :: "string \<Rightarrow> AnalysisResult" where
  "fallbackBasic randomSeason =
     \<lparr>skinTone = ''Based on general analysis principles, we've determined your '' @
        toLowerCase randomSeason @
        '' coloring. While we couldn't perform a detailed AI analysis, these colors are carefully selected to complement '' @
        toLowerCase randomSeason @ '' features.'',
      season = randomSeason,
      freeColors = fallbackFreeColors,
      premiumColors = None,
      recommendations = Some
        [''Explore '' @ toLowerCase randomSeason @
           '' color palettes that complement your natural features'',
         ''Consider colors that enhance your skin tone and bring out your best features'',
         ''Try different shades within your color season to find your favorites'',
         ''Use these colors as a starting point for building your personal palette''],
      makeupTips = None,
      wardrobeGuide = None,
      seasonalDetails = None\<rparr>"

text \<open>\<open>generateFallbackAnalysis\<close>, given the value \<open>rnd\<close> of \<open>Math.random()\<close>. An index
  outside the array reads \<open>undefined\<close>, whose \<open>toLowerCase\<close> throws a TypeError.\<close>

definition generateFallbackAnalysis :: "string \<Rightarrow> real \<Rightarrow> thrown + AnalysisResult" where
  "generateFallbackAnalysis fileName rnd =
     (let i = \<lfloor>rnd * real (length seasons)\<rfloor>
      in if 0 \<le> i \<and> i < int (length seasons)
         then generateFallbackPremiumData (fallbackBasic (seasons ! nat i))
         else Inl (JsError ''Cannot read properties of undefined (reading toLowerCase)''))"

section \<open>Primary analysis stage (lines 143-289)\<close>

definition defaultColors :: "ai_color list" where
  "defaultColors =
     [\<lparr>ai_name = ''Classic Navy'', ai_hex = Some ''#000080'',
       ai_description = ''A timeless color that works for most people''\<rparr>,
      \<lparr>ai_name = ''Soft Cream'', ai_hex = Some ''#F5F5DC'',
       ai_description = ''A gentle neutral that complements many skin tones''\<rparr>,
      \<lparr>ai_name = ''Dusty Rose'', ai_hex = Some ''#D4A5A5'',
       ai_description = ''A universally flattering soft pink tone''\<rparr>]"

text \<open>The padding loop of lines 244-256; \<open>missingIndex\<close> is \<open>length cs\<close>.\<close>

function padFreeColors :: "ai_color list \<Rightarrow> ai_color list" where
  "padFreeColors cs =
     (if length cs < 3
      then (if length cs < length defaultColors
            then padFreeColors (cs @ [defaultColors ! length cs])
            else cs)
      else cs)"
  by pat_completeness auto
termination
  by (relation "measure (\<lambda>cs. 3 - length cs)") auto

declare padFreeColors.simps [simp del]

text \<open>The body of the repair loop of lines 259-272, on one \<open>color.hex\<close>.\<close>

definition fixHex :: "string \<Rightarrow> string" where
  "fixHex h =
     (if \<not> matchesHex6 h
      then (let h1 = (if \<not> startsWith h ''#'' then CHR ''#'' # h else h)
            in if length h1 = 4
               then [CHR ''#'', h1 ! 1, h1 ! 1, h1 ! 2, h1 ! 2, h1 ! 3, h1 ! 3]
               else h1)
      else h)"

text \<open>The repair loop itself. A colour without \<open>hex\<close> makes \<open>color.hex.match\<close> throw.\<close>

fun fixHexColors :: "ai_color list \<Rightarrow> thrown + ColorResult list" where
  "fixHexColors [] = Inr []"
| "fixHexColors (color # rest) =
     (case ai_hex color of
        None \<Rightarrow> Inl (JsError ''Cannot read properties of undefined (reading match)'')
      | Some h \<Rightarrow>
          (case fixHexColors rest of
             Inl err \<Rightarrow> Inl err
           | Inr rest' \<Rightarrow>
               Inr (mkColor (ai_name color) (fixHex h) (ai_description color) None # rest')))"

text \<open>The \<open>try\<close> block of \<open>generateBasicAnalysis\<close>. The guard of line 237 tests truthiness:
  a missing field and the empty string are both falsy, an empty array is truthy.\<close>

definition basicTryBlock :: "ai_outcome \<Rightarrow> real \<Rightarrow> thrown + AnalysisResult" where
  "basicTryBlock race rnd =
     (case race of
        RaceTimeout \<Rightarrow> Inl (JsError ''AI analysis timed out after 60 seconds'')
      | RaceThrows t \<Rightarrow> Inl t
      | RaceResolves None \<Rightarrow> Inl (JsError ''AI analysis failed to generate results'')
      | RaceResolves (Some result) \<Rightarrow>
          (case (o_skinTone result, o_season result, o_freeColors result) of
             (Some sk, Some se, Some fc) \<Rightarrow>
               if sk = [] \<or> se = [] \<or> length fc < 1
               then generateFallbackAnalysis ''incomplete_ai_result'' rnd
               else (case fixHexColors (padFreeColors fc) of
                       Inl err \<Rightarrow> Inl err
                     | Inr cs \<Rightarrow>
                         Inr \<lparr>skinTone = sk, season = se, freeColors = cs,
                              premiumColors = None,
                              recommendations = o_recommendations result,
                              makeupTips = None, wardrobeGuide = None,
                              seasonalDetails = None\<rparr>)
           | _ \<Rightarrow> generateFallbackAnalysis ''incomplete_ai_result'' rnd))"

definition generateBasicAnalysis :: "string \<Rightarrow> ai_outcome \<Rightarrow> real \<Rightarrow> thrown + AnalysisResult" where
  "generateBasicAnalysis imageUrl race rnd =
     (case basicTryBlock race rnd of
        Inr r \<Rightarrow> Inr r
      | Inl err \<Rightarrow>
          Inl (JsError (''AI analysis failed: '' @
                 (case err of JsError m \<Rightarrow> m | NonError \<Rightarrow> ''Unknown error''))))"

section \<open>Enrichment stage (lines 294-370)\<close>

text \<open>\<open>{ ...basicAnalysis, ...enhancedResponse.object }\<close>\<close>

definition mergeEnhanced :: "AnalysisResult \<Rightarrow> enh_object \<Rightarrow> AnalysisResult" where
  "mergeEnhanced b obj =
     \<lparr>skinTone = (case e_skinTone obj of Some v \<Rightarrow> v | None \<Rightarrow> skinTone b),
      season = (case e_season obj of Some v \<Rightarrow> v | None \<Rightarrow> season b),
      freeColors = (case e_freeColors obj of Some v \<Rightarrow> v | None \<Rightarrow> freeColors b),
      premiumColors = (case e_premiumColors obj of Some v \<Rightarrow> Some v | None \<Rightarrow> premiumColors b),
      recommendations =
        (case e_recommendations obj of Some v \<Rightarrow> Some v | None \<Rightarrow> recommendations b),
      makeupTips = (case e_makeupTips obj of Some v \<Rightarrow> Some v | None \<Rightarrow> makeupTips b),
      wardrobeGuide = (case e_wardrobeGuide obj of Some v \<Rightarrow> Some v | None \<Rightarrow> wardrobeGuide b),
      seasonalDetails =
        (case e_seasonalDetails obj of Some v \<Rightarrow> Some v | None \<Rightarrow> seasonalDetails b)\<rparr>"

text \<open>An exception of the AI call is swallowed by the \<open>catch\<close>; the call of
  \<open>generateFallbackPremiumData\<close> stands after it, outside the \<open>try\<close>.\<close>

definition generateEnhancedAnalysis :: "AnalysisResult \<Rightarrow> enh_outcome \<Rightarrow> thrown + AnalysisResult" where
  "generateEnhancedAnalysis basicAnalysis out =
     (case out of
        EnhResolves (Some obj) \<Rightarrow> Inr (mergeEnhanced basicAnalysis obj)
      | EnhResolves None \<Rightarrow> generateFallbackPremiumData basicAnalysis
      | EnhThrows t \<Rightarrow> generateFallbackPremiumData basicAnalysis)"

section \<open>Upload with retry (lines 82-138)\<close>

text \<open>One pass through the \<open>try\<close> block of the retry loop (lines 104-122).\<close>

definition tryUpload :: "upload_outcome \<Rightarrow> thrown + string" where
  "tryUpload out =
     (case out of
        UploadThrows t \<Rightarrow> Inl t
      | UploadReturns None \<Rightarrow> Inl (JsError ''Upload failed: No public URL returned'')
      | UploadReturns (Some url) \<Rightarrow>
          if url = [] then Inl (JsError ''Upload failed: No public URL returned'')
          else if \<not> startsWith url ''http''
          then Inl (JsError ''Upload failed: Invalid public URL format'')
          else Inr url)"

text \<open>The \<open>for\<close> loop of lines 102-135 and the \<open>throw\<close> after it. \<open>lastError\<close> holds the
  message of the last error caught (\<open>None\<close> for \<open>null\<close>); the result comes with the trace of
  upload attempts and waits.\<close>

function uploadLoop ::
  "(nat \<Rightarrow> upload_outcome) \<Rightarrow> nat \<Rightarrow> nat \<Rightarrow> string option \<Rightarrow> event list \<times> (thrown + string)" where
  "uploadLoop up maxRetries attempt lastError =
     (if attempt \<le> maxRetries
      then (case tryUpload (up attempt) of
              Inr url \<Rightarrow> ([UploadAttempt attempt], Inr url)
            | Inl err \<Rightarrow>
                (let msg = (case err of JsError m \<Rightarrow> m | NonError \<Rightarrow> ''Upload failed'');
                     waits = (if attempt < maxRetries then [Wait (2 ^ attempt * 1000)] else []);
                     later = uploadLoop up maxRetries (attempt + 1) (Some msg)
                 in (UploadAttempt attempt # waits @ fst later, snd later)))
      else ([], Inl (JsError (''Upload failed after '' @ showNat maxRetries @ '' attempts: '' @
                       (case lastError of Some m \<Rightarrow> m | None \<Rightarrow> ''undefined'')))))"
  by pat_completeness auto
termination
  by (relation "measure (\<lambda>(up, maxRetries, attempt, lastError). Suc maxRetries - attempt)") auto

declare uploadLoop.simps [simp del]

text \<open>The MIME type test of lines 96-100 only logs a warning.\<close>

definition uploadWithRetry ::
  "File \<Rightarrow> string \<Rightarrow> nat \<Rightarrow> (nat \<Rightarrow> upload_outcome) \<Rightarrow> event list \<times> (thrown + string)" where
  "uploadWithRetry file userId maxRetries up =
     (if file_size file = 0 then ([], Inl (JsError ''Please select a valid image file''))
      else if file_size file > 15 * 1024 * 1024
      then ([], Inl (JsError ''File too large: Maximum size is 15MB''))
      else uploadLoop up maxRetries 1 None)"

section \<open>The pipeline (lines 28-77)\<close>

text \<open>The reachability check of lines 39-48: whatever goes wrong is replaced by one error.\<close>

definition headCheck :: "fetch_outcome \<Rightarrow> thrown + unit" where
  "headCheck out =
     (case out of
        FetchResponse True \<Rightarrow> Inr ()
      | FetchResponse False \<Rightarrow> Inl (JsError ''Uploaded image is not accessible. Please try again.'')
      | FetchThrows t \<Rightarrow> Inl (JsError ''Uploaded image is not accessible. Please try again.''))"

text \<open>The \<open>try\<close> block of \<open>analyzePhotoWithAI\<close>; \<open>uploadWithRetry\<close> is called with its
  default \<open>maxRetries = 3\<close>.\<close>

definition tryBlock :: "File \<Rightarrow> string \<Rightarrow> env \<Rightarrow> thrown + AnalysisResult" where
  "tryBlock file userId e =
     (case snd (uploadWithRetry file userId 3 (storage_upload e)) of
        Inl err \<Rightarrow> Inl err
      | Inr publicUrl \<Rightarrow>
          (case headCheck (head_fetch e) of
             Inl err \<Rightarrow> Inl err
           | Inr u \<Rightarrow>
               (case generateBasicAnalysis publicUrl (ai_primary e) (random_basic e) of
                  Inl err \<Rightarrow> Inl err
                | Inr basicAnalysis \<Rightarrow> generateEnhancedAnalysis basicAnalysis (ai_enhance e))))"

definition analyzePhotoWithAI :: "File \<Rightarrow> string \<Rightarrow> env \<Rightarrow> thrown + AnalysisResult" where
  "analyzePhotoWithAI file userId e =
     (case tryBlock file userId e of
        Inr enhancedAnalysis \<Rightarrow> Inr enhancedAnalysis
      | Inl err \<Rightarrow> generateFallbackAnalysis (file_name file) (random_top e))"

section \<open>Properties the specification states\<close>

definition hexesValid :: "ColorResult list \<Rightarrow> bool" where
  "hexesValid cs = list_all (\<lambda>c. matchesHex6 (hex c)) cs"

text \<open>A complete, well-formed result: every field is present, the season is one of the four,
  there are exactly three free colours, every hex code is valid, and the lists have the
  minimum lengths of the data model. For the premium colours the bound is that of the
  graceful-degradation property, at least one.\<close>

definition wellFormed :: "AnalysisResult \<Rightarrow> bool" where
  "wellFormed r =
     (skinTone r \<noteq> [] \<and> season r \<in> set seasons \<and>
      length (freeColors r) = 3 \<and> hexesValid (freeColors r) \<and>
      (case premiumColors r of None \<Rightarrow> False | Some ps \<Rightarrow> ps \<noteq> [] \<and> hexesValid ps) \<and>
      (case recommendations r of None \<Rightarrow> False | Some xs \<Rightarrow> 3 \<le> length xs) \<and>
      (case makeupTips r of None \<Rightarrow> False | Some xs \<Rightarrow> 8 \<le> length xs) \<and>
      (case wardrobeGuide r of None \<Rightarrow> False | Some xs \<Rightarrow> 10 \<le> length xs) \<and>
      (case seasonalDetails r of
         None \<Rightarrow> False
       | Some d \<Rightarrow> 5 \<le> length (characteristics d) \<and> 5 \<le> length (avoidColors d)))"

text \<open>The forms of a hex code that the repair turns into a valid one: a valid code, six hex
  digits without \<open>#\<close>, three hex digits without \<open>#\<close>, and \<open>#\<close> with three hex digits.\<close>

definition repairableHex :: "string \<Rightarrow> bool" where
  "repairableHex h =
     (matchesHex6 h \<or>
      (length h = 6 \<and> list_all isHexDigit h) \<or>
      (length h = 3 \<and> list_all isHexDigit h) \<or>
      (case h of [] \<Rightarrow> False | c # ds \<Rightarrow> c = CHR ''#'' \<and> length ds = 3 \<and> list_all isHexDigit ds))"

text \<open>The guard of line 237 lets an AI object through: the colours it then works on.\<close>

definition acceptedColors :: "ai_object \<Rightarrow> ai_color list option" where
  "acceptedColors obj =
     (case (o_skinTone obj, o_season obj, o_freeColors obj) of
        (Some sk, Some se, Some fc) \<Rightarrow>
          if sk = [] \<or> se = [] \<or> length fc < 1 then None else Some fc
      | _ \<Rightarrow> None)"

text \<open>The RGB channels of a hex code \<open>#RRGGBB\<close>, and the variants in the specification's
  words: every channel moved by a fixed amount and clamped to the range from 0 to 255.\<close>

definition hexPair :: "char \<Rightarrow> char \<Rightarrow> nat option" where
  "hexPair a b =
     (case (hexDigitValue a, hexDigitValue b) of
        (Some x, Some y) \<Rightarrow> Some (16 * x + y)
      | _ \<Rightarrow> None)"

definition rgbOfHex :: "string \<Rightarrow> (nat \<times> nat \<times> nat) option" where
  "rgbOfHex h =
     (case h of
        [c, r1, r2, g1, g2, b1, b2] \<Rightarrow>
          if c = CHR ''#''
          then (case (hexPair r1 r2, hexPair g1 g2, hexPair b1 b2) of
                  (Some r, Some g, Some b) \<Rightarrow> Some (r, g, b)
                | _ \<Rightarrow> None)
          else None
      | _ \<Rightarrow> None)"

definition clampChannel :: "int \<Rightarrow> nat" where
  "clampChannel v = nat (max 0 (min 255 v))"

definition shiftedBy :: "int \<Rightarrow> string \<Rightarrow> string \<Rightarrow> bool" where
  "shiftedBy d base variant =
     (case rgbOfHex base of
        None \<Rightarrow> False
      | Some (r, g, b) \<Rightarrow>
          rgbOfHex variant =
            Some (clampChannel (int r + d), clampChannel (int g + d), clampChannel (int b + d)))"

definition specLight :: "ColorResult \<Rightarrow> ColorResult \<Rightarrow> bool" where
  "specLight base v =
     (name v = ''Light '' @ name base \<and> shiftedBy 40 (hex base) (hex v) \<and> category v = Some soft)"

definition specDeep :: "ColorResult \<Rightarrow> ColorResult \<Rightarrow> bool" where
  "specDeep base v =
     (name v = ''Deep '' @ name base \<and> shiftedBy (- 40) (hex base) (hex v) \<and>
      category v = Some statement)"

definition isAttempt :: "event \<Rightarrow> bool" where
  "isAttempt ev = (case ev of UploadAttempt n \<Rightarrow> True | Wait ms \<Rightarrow> False)"

section \<open>Sample inputs\<close>

definition sampleFile :: File where
  "sampleFile = \<lparr>file_name = ''portrait.jpg'', file_size = 2 * 1024 * 1024, file_type = ''image/jpeg''\<rparr>"

definition emptyFile :: File where
  "emptyFile = \<lparr>file_name = ''empty.jpg'', file_size = 0, file_type = ''image/jpeg''\<rparr>"

definition namelessFile :: File where
  "namelessFile = \<lparr>file_name = [], file_size = 1024, file_type = ''image/png''\<rparr>"

definition okUpload :: "nat \<Rightarrow> upload_outcome" where
  "okUpload attempt = UploadReturns (Some ''https://cdn.example/portrait.jpg'')"

definition flakyUpload :: "nat \<Rightarrow> upload_outcome" where
  "flakyUpload attempt =
     (if attempt < 3 then UploadThrows (JsError ''Network error'')
      else UploadReturns (Some ''https://cdn.example/portrait.jpg''))"

definition deadUpload :: "nat \<Rightarrow> upload_outcome" where
  "deadUpload attempt =
     (if attempt < 3 then UploadThrows (JsError ''Network error'')
      else UploadThrows (JsError ''Storage quota exceeded''))"

definition aiColor :: "string \<Rightarrow> string \<Rightarrow> ai_color" where
  "aiColor n h = \<lparr>ai_name = n, ai_hex = Some h, ai_description = ''Suits warm undertones''\<rparr>"

definition oneColorObject :: ai_object where
  "oneColorObject =
     \<lparr>o_skinTone = Some ''warm'', o_season = Some ''Autumn'',
      o_freeColors = Some [aiColor ''Rust'' ''abc''],
      o_recommendations = Some [''Wear earth tones'', ''Prefer gold jewelry'', ''Avoid icy pastels'']\<rparr>"

definition twoColorObject :: ai_object where
  "twoColorObject =
     \<lparr>o_skinTone = Some ''warm'', o_season = Some ''Autumn'',
      o_freeColors = Some [aiColor ''Rust'' ''abc'', aiColor ''Moss'' ''123456''],
      o_recommendations = Some [''Wear earth tones'', ''Prefer gold jewelry'', ''Avoid icy pastels'']\<rparr>"

definition fourColorObject :: ai_object where
  "fourColorObject =
     \<lparr>o_skinTone = Some ''cool'', o_season = Some ''Winter'',
      o_freeColors = Some [aiColor ''Ruby'' ''#9B111E'', aiColor ''Ink'' ''#1B1B3A'',
                           aiColor ''Snow'' ''#FFFAFA'', aiColor ''Jade'' ''#00A86B''],
      o_recommendations = Some [''Wear clear colors'', ''Prefer silver jewelry'', ''Avoid muted tones'']\<rparr>"

definition monsoonObject :: ai_object where
  "monsoonObject =
     \<lparr>o_skinTone = Some ''neutral'', o_season = Some ''Monsoon'',
      o_freeColors = Some [aiColor ''Brick'' ''red'', aiColor ''Ink'' ''#1B1B3A'',
                           aiColor ''Snow'' ''#FFFAFA''],
      o_recommendations = Some [''Wear clear colors'', ''Prefer silver jewelry'', ''Avoid muted tones'']\<rparr>"

definition sampleEnv :: "(nat \<Rightarrow> upload_outcome) \<Rightarrow> ai_outcome \<Rightarrow> enh_outcome \<Rightarrow> env" where
  "sampleEnv up primary enh =
     \<lparr>storage_upload = up, head_fetch = FetchResponse True, ai_primary = primary,
      ai_enhance = enh, random_basic = 1 / 4, random_top = 1 / 2\<rparr>"

text \<open>A run in which upload and reachability check succeed, the model returns the season
  \<open>Monsoon\<close> and the hex \<open>red\<close>, and the enrichment call throws.\<close>

definition monsoonEnv :: env where
  "monsoonEnv =
     sampleEnv okUpload (RaceResolves (Some monsoonObject)) (EnhThrows (JsError ''Service unavailable''))"


text \<open>A run in which every external call succeeds.\<close>

definition healthyEnv :: env where
  "healthyEnv = sampleEnv okUpload (RaceResolves (Some twoColorObject)) (EnhResolves None)"

section \<open>Evaluating the number renderings\<close>

lemma toString16_digit: "n < 16 \<Longrightarrow> toString16 n = [''0123456789abcdef'' ! n]"
  by (subst toString16.simps) simp

lemma toString16_step:
  "16 \<le> n \<Longrightarrow> toString16 n = toString16 (n div 16) @ [''0123456789abcdef'' ! (n mod 16)]"
  by (subst toString16.simps) simp

lemma showNat_digit: "n < 10 \<Longrightarrow> showNat n = [''0123456789'' ! n]"
  by (subst showNat.simps) simp

lemma showNat_step:
  "10 \<le> n \<Longrightarrow> showNat n = showNat (n div 10) @ [''0123456789'' ! (n mod 10)]"
  by (subst showNat.simps) simp

section \<open>Hex repair\<close>

lemma hash_not_hex: "\<not> isHexDigit CHR ''#''"
  by (simp add: isHexDigit_def hexDigitValue_def)

lemma startsWith_hash: "startsWith h ''#'' = (case h of [] \<Rightarrow> False | c # ds \<Rightarrow> c = CHR ''#'')"
  by (cases h) (simp_all add: startsWith_def)

lemma length3: "length xs = 3 \<Longrightarrow> \<exists>a b c. xs = [a, b, c]"
  by (cases xs; cases "tl xs"; cases "tl (tl xs)") auto

lemma fixHex_valid_iff: "matchesHex6 (fixHex h) = repairableHex h"
proof (cases "matchesHex6 h")
  case True
  then show ?thesis by (simp add: fixHex_def repairableHex_def)
next
  case nm: False
  show ?thesis
  proof (cases h)
    case Nil
    then show ?thesis
      by (simp add: fixHex_def repairableHex_def matchesHex6_def startsWith_def)
  next
    case (Cons c ds)
    show ?thesis
    proof (cases "c = CHR ''#''")
      case True
      show ?thesis
      proof (cases "length ds = 3")
        case True
        then obtain x y z where "ds = [x, y, z]" using length3 by blast
        with \<open>c = CHR ''#''\<close> Cons show ?thesis
          by (simp add: fixHex_def repairableHex_def matchesHex6_def startsWith_def hash_not_hex)
      next
        case False
        with \<open>c = CHR ''#''\<close> Cons nm show ?thesis
          by (auto simp add: fixHex_def repairableHex_def matchesHex6_def startsWith_def hash_not_hex)
      qed
    next
      case nh: False
      show ?thesis
      proof (cases "length h = 3")
        case True
        then obtain x y z where "h = [x, y, z]" using length3 by blast
        with nh Cons show ?thesis
          by (auto simp add: fixHex_def repairableHex_def matchesHex6_def startsWith_def)
      next
        case False
        with nh Cons nm show ?thesis
          by (auto simp add: fixHex_def repairableHex_def matchesHex6_def startsWith_def)
      qed
    qed
  qed
qed

section \<open>The fallback palettes, evaluated\<close>

lemma lightenColor_shift:
  "lightenColor h = shiftHexNum 40 (toInt32 (parseInt16 (replaceFirstHash h)))"
  unfolding lightenColor_def shiftHexNum_def Let_def by simp

lemma darkenColor_shift:
  "darkenColor h = shiftHexNum (- 40) (toInt32 (parseInt16 (replaceFirstHash h)))"
  unfolding darkenColor_def shiftHexNum_def Let_def by simp

lemmas parse_eval = parseInt16_def toInt32_def isHexDigit_def hexDigitValue_def

lemmas spec_eval =
  specLight_def specDeep_def shiftedBy_def rgbOfHex_def hexPair_def clampChannel_def
  hexDigitValue_def

lemma lighten_spring:
  "lightenColor ''#FF7F7F'' = ''#ffa7a7''"
  "lightenColor ''#FFD700'' = ''#ffff28''"
  "lightenColor ''#FFCBA4'' = ''#fff3cc''"
  "lightenColor ''#F5F5DC'' = ''#ffffff''"
  "lightenColor ''#40E0D0'' = ''#68fff8''"
  unfolding lightenColor_shift
      apply (simp_all add: parse_eval)
  unfolding shiftHexNum_def Let_def
      apply (simp_all add: toString16_digit toString16_step)
  done

lemma darken_spring:
  "darkenColor ''#FF7F7F'' = ''#d75757''"
  "darkenColor ''#FFD700'' = ''#d7af00''"
  "darkenColor ''#FFCBA4'' = ''#d7a37c''"
  "darkenColor ''#F5F5DC'' = ''#cdcdb4''"
  "darkenColor ''#40E0D0'' = ''#18b8a8''"
  unfolding darkenColor_shift
      apply (simp_all add: parse_eval)
  unfolding shiftHexNum_def Let_def
      apply (simp_all add: toString16_digit toString16_step)
  done

lemma lighten_summer:
  "lightenColor ''#87CEEB'' = ''#aff6ff''"
  "lightenColor ''#E6E6FA'' = ''#ffffff''"
  "lightenColor ''#FFC0CB'' = ''#ffe8f3''"
  "lightenColor ''#D3D3D3'' = ''#fbfbfb''"
  "lightenColor ''#98FB98'' = ''#c0ffc0''"
  unfolding lightenColor_shift
      apply (simp_all add: parse_eval)
  unfolding shiftHexNum_def Let_def
      apply (simp_all add: toString16_digit toString16_step)
  done

lemma darken_summer:
  "darkenColor ''#87CEEB'' = ''#5fa6c3''"
  "darkenColor ''#E6E6FA'' = ''#bebed2''"
  "darkenColor ''#FFC0CB'' = ''#d798a3''"
  "darkenColor ''#D3D3D3'' = ''#ababab''"
  "darkenColor ''#98FB98'' = ''#70d370''"
  unfolding darkenColor_shift
      apply (simp_all add: parse_eval)
  unfolding shiftHexNum_def Let_def
      apply (simp_all add: toString16_digit toString16_step)
  done

lemma lighten_autumn:
  "lightenColor ''#CC5500'' = ''#f47d28''"
  "lightenColor ''#800020'' = ''#a82848''"
  "lightenColor ''#B8860B'' = ''#e0ae33''"
  "lightenColor ''#808000'' = ''#a8a828''"
  "lightenColor ''#FFFDD0'' = ''#fffff8''"
  unfolding lightenColor_shift
      apply (simp_all add: parse_eval)
  unfolding shiftHexNum_def Let_def
      apply (simp_all add: toString16_digit toString16_step)
  done

lemma darken_autumn:
  "darkenColor ''#CC5500'' = ''#a42d00''"
  "darkenColor ''#800020'' = ''#580000''"
  "darkenColor ''#B8860B'' = ''#905e00''"
  "darkenColor ''#808000'' = ''#585800''"
  "darkenColor ''#FFFDD0'' = ''#d7d5a8''"
  unfolding darkenColor_shift
      apply (simp_all add: parse_eval)
  unfolding shiftHexNum_def Let_def
      apply (simp_all add: toString16_digit toString16_step)
  done

lemma lighten_winter:
  "lightenColor ''#FF0000'' = ''#ff2828''"
  "lightenColor ''#4169E1'' = ''#6991ff''"
  "lightenColor ''#FFFFFF'' = ''#ffffff''"
  "lightenColor ''#000000'' = ''#282828''"
  "lightenColor ''#50C878'' = ''#78f0a0''"
  unfolding lightenColor_shift
      apply (simp_all add: parse_eval)
  unfolding shiftHexNum_def Let_def
      apply (simp_all add: toString16_digit toString16_step)
  done

lemma darken_winter:
  "darkenColor ''#FF0000'' = ''#d70000''"
  "darkenColor ''#4169E1'' = ''#1941b9''"
  "darkenColor ''#FFFFFF'' = ''#d7d7d7''"
  "darkenColor ''#000000'' = ''#000000''"
  "darkenColor ''#50C878'' = ''#28a050''"
  unfolding darkenColor_shift
      apply (simp_all add: parse_eval)
  unfolding shiftHexNum_def Let_def
      apply (simp_all add: toString16_digit toString16_step)
  done

lemma light_spring: "list_all2 specLight springColors (map lightVariant springColors)"
  unfolding springColors_def lightVariant_def mkColor_def
  by (simp add: lighten_spring spec_eval)

lemma deep_spring: "list_all2 specDeep springColors (map deepVariant springColors)"
  unfolding springColors_def deepVariant_def mkColor_def
  by (simp add: darken_spring spec_eval)

lemma valid_spring: "hexesValid (expandedPalette springColors)"
  unfolding springColors_def expandedPalette_def lightVariant_def deepVariant_def mkColor_def
  by (simp add: lighten_spring darken_spring hexesValid_def matchesHex6_def isHexDigit_def
      hexDigitValue_def)

lemma light_summer: "list_all2 specLight summerColors (map lightVariant summerColors)"
  unfolding summerColors_def lightVariant_def mkColor_def
  by (simp add: lighten_summer spec_eval)

lemma deep_summer: "list_all2 specDeep summerColors (map deepVariant summerColors)"
  unfolding summerColors_def deepVariant_def mkColor_def
  by (simp add: darken_summer spec_eval)

lemma valid_summer: "hexesValid (expandedPalette summerColors)"
  unfolding summerColors_def expandedPalette_def lightVariant_def deepVariant_def mkColor_def
  by (simp add: lighten_summer darken_summer hexesValid_def matchesHex6_def isHexDigit_def
      hexDigitValue_def)

lemma light_autumn: "list_all2 specLight autumnColors (map lightVariant autumnColors)"
  unfolding autumnColors_def lightVariant_def mkColor_def
  by (simp add: lighten_autumn spec_eval)

lemma deep_autumn: "list_all2 specDeep autumnColors (map deepVariant autumnColors)"
  unfolding autumnColors_def deepVariant_def mkColor_def
  by (simp add: darken_autumn spec_eval)

lemma valid_autumn: "hexesValid (expandedPalette autumnColors)"
  unfolding autumnColors_def expandedPalette_def lightVariant_def deepVariant_def mkColor_def
  by (simp add: lighten_autumn darken_autumn hexesValid_def matchesHex6_def isHexDigit_def
      hexDigitValue_def)

lemma light_winter: "list_all2 specLight winterColors (map lightVariant winterColors)"
  unfolding winterColors_def lightVariant_def mkColor_def
  by (simp add: lighten_winter spec_eval)

lemma deep_winter: "list_all2 specDeep winterColors (map deepVariant winterColors)"
  unfolding winterColors_def deepVariant_def mkColor_def
  by (simp add: darken_winter spec_eval)

lemma valid_winter: "hexesValid (expandedPalette winterColors)"
  unfolding winterColors_def expandedPalette_def lightVariant_def deepVariant_def mkColor_def
  by (simp add: lighten_winter darken_winter hexesValid_def matchesHex6_def isHexDigit_def
      hexDigitValue_def)

lemma table_lengths:
  "length springColors = 5" "length summerColors = 5"
  "length autumnColors = 5" "length winterColors = 5"
  by (simp_all add: springColors_def summerColors_def autumnColors_def winterColors_def)

lemma expandedPalette_parts:
  assumes "length base = 5"
  shows "length (expandedPalette base) = 15"
    and "take 24 (expandedPalette base) = expandedPalette base"
    and "take 5 (expandedPalette base) = base"
    and "take 5 (drop 5 (expandedPalette base)) = map lightVariant base"
    and "drop 10 (expandedPalette base) = map deepVariant base"
  using assms by (simp_all add: expandedPalette_def)

lemma seasonColors_cases:
  "seasonColors s = Some base \<Longrightarrow>
     base = springColors \<or> base = summerColors \<or> base = autumnColors \<or> base = winterColors"
  by (auto simp add: seasonColors_def split: if_splits)

lemma seasonColors_keys:
  "seasonColors ''Spring'' = Some springColors" "seasonColors ''Summer'' = Some summerColors"
  "seasonColors ''Autumn'' = Some autumnColors" "seasonColors ''Winter'' = Some winterColors"
  by (simp_all add: seasonColors_def)

lemma baseColors_cases:
  "(case seasonColors s of Some cs \<Rightarrow> cs | None \<Rightarrow> springColors) \<in>
     {springColors, summerColors, autumnColors, winterColors}"
  using seasonColors_cases [of s] by (cases "seasonColors s") auto

lemma seasons_not_prototype: "s \<in> set seasons \<Longrightarrow> s \<notin> set objectPrototypeKeys"
  by (auto simp add: seasons_def objectPrototypeKeys_def)

section \<open>The fallback generator\<close>

lemma valid_tables:
  "base \<in> {springColors, summerColors, autumnColors, winterColors} \<Longrightarrow>
     hexesValid (expandedPalette base) \<and> length base = 5"
  using valid_spring valid_summer valid_autumn valid_winter table_lengths by auto

lemma fallbackPremium_result:
  assumes "season b \<notin> set objectPrototypeKeys"
  shows "generateFallbackPremiumData b =
           Inr (b\<lparr>premiumColors :=
                     Some (expandedPalette
                       (case seasonColors (season b) of Some cs \<Rightarrow> cs | None \<Rightarrow> springColors)),
                  makeupTips := Some (fallbackMakeupTips (season b)),
                  wardrobeGuide := Some fallbackWardrobeGuide,
                  seasonalDetails := Some (fallbackSeasonalDetails (season b))\<rparr>)"
proof -
  have "length (case seasonColors (season b) of Some cs \<Rightarrow> cs | None \<Rightarrow> springColors) = 5"
    using baseColors_cases [of "season b"] valid_tables by blast
  then show ?thesis
    using assms by (simp add: generateFallbackPremiumData_def Let_def expandedPalette_parts)
qed

lemma fallbackPremium_cases:
  "generateFallbackPremiumData b = Inl (JsError ''baseColors is not iterable'') \<or>
   generateFallbackPremiumData b =
     Inr (b\<lparr>premiumColors :=
               Some (expandedPalette
                 (case seasonColors (season b) of Some cs \<Rightarrow> cs | None \<Rightarrow> springColors)),
            makeupTips := Some (fallbackMakeupTips (season b)),
            wardrobeGuide := Some fallbackWardrobeGuide,
            seasonalDetails := Some (fallbackSeasonalDetails (season b))\<rparr>)"
proof (cases "season b \<in> set objectPrototypeKeys")
  case True
  then show ?thesis by (simp add: generateFallbackPremiumData_def)
next
  case False
  then show ?thesis using fallbackPremium_result by blast
qed

lemma fallbackFreeColors_ok: "length fallbackFreeColors = 3 \<and> hexesValid fallbackFreeColors"
  by (simp add: fallbackFreeColors_def mkColor_def hexesValid_def matchesHex6_def isHexDigit_def
      hexDigitValue_def)

lemma fallback_of_season:
  assumes "s \<in> set seasons"
  shows "\<exists>r. generateFallbackPremiumData (fallbackBasic s) = Inr r \<and> wellFormed r \<and> season r = s"
proof -
  let ?base = "case seasonColors s of Some cs \<Rightarrow> cs | None \<Rightarrow> springColors"
  let ?r = "(fallbackBasic s)\<lparr>premiumColors := Some (expandedPalette ?base),
              makeupTips := Some (fallbackMakeupTips s),
              wardrobeGuide := Some fallbackWardrobeGuide,
              seasonalDetails := Some (fallbackSeasonalDetails s)\<rparr>"
  have s: "season (fallbackBasic s) = s" by (simp add: fallbackBasic_def)
  have "season (fallbackBasic s) \<notin> set objectPrototypeKeys"
    using assms seasons_not_prototype s by simp
  then have eq: "generateFallbackPremiumData (fallbackBasic s) = Inr ?r"
    using fallbackPremium_result [of "fallbackBasic s"] s by simp
  have base: "hexesValid (expandedPalette ?base)" "length ?base = 5"
    using baseColors_cases [of s] valid_tables by blast+
  then have ne: "expandedPalette ?base \<noteq> []"
    using expandedPalette_parts(1) [of ?base] by auto
  have "wellFormed ?r"
    using assms base(1) ne fallbackFreeColors_ok
    by (simp add: wellFormed_def fallbackBasic_def fallbackMakeupTips_def
        fallbackWardrobeGuide_def fallbackSeasonalDetails_def)
  moreover have "season ?r = s" by (simp add: fallbackBasic_def)
  ultimately show ?thesis using eq by blast
qed

lemma random_index:
  assumes "0 \<le> rnd" "rnd < 1"
  shows "0 \<le> \<lfloor>rnd * real (length seasons)\<rfloor> \<and> \<lfloor>rnd * real (length seasons)\<rfloor> < int (length seasons)"
proof -
  have "0 \<le> rnd * 4" "rnd * 4 < 4" using assms by simp_all
  then have "0 \<le> \<lfloor>rnd * 4\<rfloor>" "\<lfloor>rnd * 4\<rfloor> < 4"
    by (simp_all add: floor_less_iff)
  then show ?thesis by (simp add: seasons_def)
qed

lemma fallback_total:
  assumes "0 \<le> rnd" "rnd < 1"
  shows "\<exists>r. generateFallbackAnalysis fileName rnd = Inr r \<and> wellFormed r"
proof -
  let ?i = "\<lfloor>rnd * real (length seasons)\<rfloor>"
  have i: "0 \<le> ?i" "?i < int (length seasons)" using random_index [OF assms] by simp_all
  then have "nat ?i < length seasons" by linarith
  then have "seasons ! nat ?i \<in> set seasons" by simp
  then obtain r where "generateFallbackPremiumData (fallbackBasic (seasons ! nat ?i)) = Inr r"
    "wellFormed r" using fallback_of_season by blast
  then show ?thesis using i by (simp add: generateFallbackAnalysis_def Let_def)
qed

lemma fallback_out_of_contract:
  assumes "rnd < 0 \<or> 1 \<le> rnd"
  shows "generateFallbackAnalysis fileName rnd =
           Inl (JsError ''Cannot read properties of undefined (reading toLowerCase)'')"
proof -
  have "\<lfloor>rnd * 4\<rfloor> < 0 \<or> 4 \<le> \<lfloor>rnd * 4\<rfloor>"
    using assms by (auto simp add: floor_less_iff le_floor_iff)
  then show ?thesis by (auto simp add: generateFallbackAnalysis_def Let_def seasons_def)
qed

lemma fallback_season:
  assumes "generateFallbackAnalysis fileName rnd = Inr r"
  shows "season r \<in> set seasons \<and> wellFormed r"
proof -
  have c: "0 \<le> rnd \<and> rnd < 1"
  proof (rule ccontr)
    assume "\<not> (0 \<le> rnd \<and> rnd < 1)"
    then have "rnd < 0 \<or> 1 \<le> rnd" by linarith
    from fallback_out_of_contract [OF this] assms show False by simp
  qed
  then obtain r' where "generateFallbackAnalysis fileName rnd = Inr r'" "wellFormed r'"
    using fallback_total by blast
  with assms show ?thesis by (simp add: wellFormed_def)
qed

section \<open>The primary analysis stage\<close>

lemma padFreeColors_eq: "padFreeColors cs = cs @ drop (length cs) defaultColors"
proof (induction cs rule: padFreeColors.induct)
  case (1 cs)
  show ?case
  proof (cases "length cs < 3")
    case True
    then have l: "length cs < length defaultColors" by (simp add: defaultColors_def)
    have "padFreeColors cs = padFreeColors (cs @ [defaultColors ! length cs])"
      using True l by (subst padFreeColors.simps) simp
    also have "\<dots> = (cs @ [defaultColors ! length cs]) @ drop (Suc (length cs)) defaultColors"
      using 1 [OF True l] by simp
    also have "\<dots> = cs @ drop (length cs) defaultColors"
      using l by (simp add: Cons_nth_drop_Suc)
    finally show ?thesis .
  next
    case False
    then show ?thesis by (subst padFreeColors.simps) (simp add: defaultColors_def)
  qed
qed

lemma length_padFreeColors: "length (padFreeColors cs) = max 3 (length cs)"
  by (simp add: padFreeColors_eq defaultColors_def)

lemma fixHexColors_Inr:
  "fixHexColors cs = Inr rs \<Longrightarrow>
     length rs = length cs \<and> map name rs = map ai_name cs \<and>
     map (\<lambda>c. Some (hex c)) rs = map (\<lambda>c. map_option fixHex (ai_hex c)) cs"
proof (induction cs arbitrary: rs)
  case Nil
  then show ?case by simp
next
  case (Cons c cs)
  then show ?case
    by (auto simp add: mkColor_def split: option.splits sum.splits)
qed

lemma fixHexColors_valid:
  "fixHexColors cs = Inr rs \<Longrightarrow>
     hexesValid rs = list_all (\<lambda>c. case ai_hex c of None \<Rightarrow> False | Some h \<Rightarrow> repairableHex h) cs"
proof (induction cs arbitrary: rs)
  case Nil
  then show ?case by (simp add: hexesValid_def)
next
  case (Cons c cs)
  then show ?case
    by (auto simp add: mkColor_def hexesValid_def fixHex_valid_iff split: option.splits sum.splits)
qed

lemma fixHexColors_total:
  "list_all (\<lambda>c. ai_hex c \<noteq> None) cs \<Longrightarrow> \<exists>rs. fixHexColors cs = Inr rs"
  by (induction cs) auto

lemma accepted_fields:
  "acceptedColors obj = Some fc \<Longrightarrow>
     \<exists>sk se. o_skinTone obj = Some sk \<and> o_season obj = Some se \<and> o_freeColors obj = Some fc \<and>
       sk \<noteq> [] \<and> se \<noteq> [] \<and> fc \<noteq> []"
  by (auto simp add: acceptedColors_def split: option.splits if_splits)

lemma basic_rejected:
  "acceptedColors obj = None \<Longrightarrow>
     basicTryBlock (RaceResolves (Some obj)) rnd =
       generateFallbackAnalysis ''incomplete_ai_result'' rnd"
  by (auto simp add: acceptedColors_def basicTryBlock_def split: option.splits if_splits)

lemma basic_accepted:
  assumes "acceptedColors obj = Some fc" "o_skinTone obj = Some sk" "o_season obj = Some se"
  shows "basicTryBlock (RaceResolves (Some obj)) rnd =
           (case fixHexColors (padFreeColors fc) of
              Inl err \<Rightarrow> Inl err
            | Inr cs \<Rightarrow>
                Inr \<lparr>skinTone = sk, season = se, freeColors = cs, premiumColors = None,
                     recommendations = o_recommendations obj, makeupTips = None,
                     wardrobeGuide = None, seasonalDetails = None\<rparr>)"
  using assms accepted_fields [OF assms(1)]
  by (auto simp add: basicTryBlock_def split: option.splits sum.splits)

lemma generateBasic_Inr:
  "generateBasicAnalysis url race rnd = Inr r \<longleftrightarrow> basicTryBlock race rnd = Inr r"
  by (simp add: generateBasicAnalysis_def split: sum.splits)


lemma basic_accepted_result:
  assumes "acceptedColors obj = Some fc"
    and "generateBasicAnalysis url (RaceResolves (Some obj)) rnd = Inr r"
  shows "fixHexColors (padFreeColors fc) = Inr (freeColors r) \<and>
         o_season obj = Some (season r) \<and> o_skinTone obj = Some (skinTone r) \<and>
         premiumColors r = None \<and> recommendations r = o_recommendations obj"
proof -
  obtain sk se where f: "o_skinTone obj = Some sk" "o_season obj = Some se"
    using accepted_fields [OF assms(1)] by blast
  from assms(2) have "basicTryBlock (RaceResolves (Some obj)) rnd = Inr r"
    by (simp add: generateBasic_Inr)
  then show ?thesis
    unfolding basic_accepted [OF assms(1) f] using f by (auto split: sum.splits)
qed

lemma defaults_have_hex: "list_all (\<lambda>c. ai_hex c \<noteq> None) (drop n defaultColors)"
proof -
  have "list_all (\<lambda>c. ai_hex c \<noteq> None) defaultColors" by (simp add: defaultColors_def)
  then show ?thesis using set_drop_subset [of n defaultColors] by (auto simp add: list_all_iff)
qed

lemma basic_accepted_total:
  assumes "acceptedColors obj = Some fc" and "list_all (\<lambda>c. ai_hex c \<noteq> None) fc"
  shows "\<exists>r. generateBasicAnalysis url (RaceResolves (Some obj)) rnd = Inr r"
proof -
  obtain sk se where f: "o_skinTone obj = Some sk" "o_season obj = Some se"
    using accepted_fields [OF assms(1)] by blast
  have "list_all (\<lambda>c. ai_hex c \<noteq> None) (padFreeColors fc)"
    using assms(2) defaults_have_hex [of "length fc"] by (simp add: padFreeColors_eq)
  then obtain cs where "fixHexColors (padFreeColors fc) = Inr cs"
    using fixHexColors_total by blast
  then show ?thesis
    by (simp add: generateBasic_Inr basic_accepted [OF assms(1) f])
qed

lemma basic_rejected_total:
  assumes "acceptedColors obj = None" and "0 \<le> rnd" and "rnd < 1"
  shows "\<exists>r. generateBasicAnalysis url (RaceResolves (Some obj)) rnd = Inr r"
  using fallback_total [OF assms(2,3), of "''incomplete_ai_result''"]
  by (auto simp add: generateBasic_Inr basic_rejected [OF assms(1)])

section \<open>Claims about the primary analysis stage\<close>

lemma fixHex_examples:
  "fixHex ''abc'' = ''#aabbcc''" "fixHex ''123456'' = ''#123456''"
  "fixHex ''#D4A5A5'' = ''#D4A5A5''"
  by (simp_all add: fixHex_def matchesHex6_def startsWith_def isHexDigit_def hexDigitValue_def)

lemma twoColorObject_accepted:
  "acceptedColors twoColorObject = Some [aiColor ''Rust'' ''abc'', aiColor ''Moss'' ''123456'']"
  by (simp add: acceptedColors_def twoColorObject_def)

lemma basic_twoColorObject:
  "generateBasicAnalysis url (RaceResolves (Some twoColorObject)) rnd =
     Inr \<lparr>skinTone = ''warm'', season = ''Autumn'',
          freeColors =
            [mkColor ''Rust'' ''#aabbcc'' ''Suits warm undertones'' None,
             mkColor ''Moss'' ''#123456'' ''Suits warm undertones'' None,
             mkColor ''Dusty Rose'' ''#D4A5A5'' ''A universally flattering soft pink tone'' None],
          premiumColors = None,
          recommendations =
            Some [''Wear earth tones'', ''Prefer gold jewelry'', ''Avoid icy pastels''],
          makeupTips = None, wardrobeGuide = None, seasonalDetails = None\<rparr>"
proof -
  have f: "o_skinTone twoColorObject = Some ''warm''" "o_season twoColorObject = Some ''Autumn''"
    "o_recommendations twoColorObject =
       Some [''Wear earth tones'', ''Prefer gold jewelry'', ''Avoid icy pastels'']"
    by (simp_all add: twoColorObject_def)
  have pad: "padFreeColors [aiColor ''Rust'' ''abc'', aiColor ''Moss'' ''123456''] =
      [aiColor ''Rust'' ''abc'', aiColor ''Moss'' ''123456'', defaultColors ! 2]"
    by (simp add: padFreeColors_eq defaultColors_def)
  have fx: "fixHexColors [aiColor ''Rust'' ''abc'', aiColor ''Moss'' ''123456'', defaultColors ! 2] =
      Inr [mkColor ''Rust'' ''#aabbcc'' ''Suits warm undertones'' None,
           mkColor ''Moss'' ''#123456'' ''Suits warm undertones'' None,
           mkColor ''Dusty Rose'' ''#D4A5A5'' ''A universally flattering soft pink tone'' None]"
    by (simp add: aiColor_def defaultColors_def fixHex_examples)
  show ?thesis
    unfolding generateBasicAnalysis_def basic_accepted [OF twoColorObject_accepted f(1) f(2)] pad fx
    by (simp add: f(3))
qed

text \<open>
  C7. The hex repair maps the hex string \<open>abc\<close> to \<open>#aabbcc\<close> and the hex string
  \<open>123456\<close> to \<open>#123456\<close>, and the result that the primary stage returns holds the
  repaired codes: for an AI object with these two colours the stage returns them with the
  repaired hex, name and description unchanged, followed by the one default it appends.
\<close>

theorem hex_repair_examples:
  "fixHex ''abc'' = ''#aabbcc'' \<and> fixHex ''123456'' = ''#123456'' \<and>
   generateBasicAnalysis url (RaceResolves (Some twoColorObject)) rnd =
     Inr \<lparr>skinTone = ''warm'', season = ''Autumn'',
          freeColors =
            [mkColor ''Rust'' ''#aabbcc'' ''Suits warm undertones'' None,
             mkColor ''Moss'' ''#123456'' ''Suits warm undertones'' None,
             mkColor ''Dusty Rose'' ''#D4A5A5'' ''A universally flattering soft pink tone'' None],
          premiumColors = None,
          recommendations =
            Some [''Wear earth tones'', ''Prefer gold jewelry'', ''Avoid icy pastels''],
          makeupTips = None, wardrobeGuide = None, seasonalDetails = None\<rparr>"
  using fixHex_examples basic_twoColorObject by simp

text \<open>
  C10. The padding loop appends the default whose index is the current number of free
  colours. The guard of the stage lets only objects with at least one colour through, so
  the first default, Classic Navy, is never appended: after one colour the loop appends Soft
  Cream and Dusty Rose, after two colours only Dusty Rose. The stage returns a result when
  every colour of the model has a hex code, and the names of the returned free colours are
  those of the model followed by those of the defaults from that index on.
\<close>

theorem padding_skips_first_default:
  assumes "acceptedColors obj = Some fc"
  shows "padFreeColors fc = fc @ drop (length fc) defaultColors \<and>
         map ai_name defaultColors = [''Classic Navy'', ''Soft Cream'', ''Dusty Rose''] \<and>
         ''Classic Navy'' \<notin> set (map ai_name (drop (length fc) defaultColors)) \<and>
         (length fc = 1 \<longrightarrow>
            map ai_name (drop (length fc) defaultColors) = [''Soft Cream'', ''Dusty Rose'']) \<and>
         (length fc = 2 \<longrightarrow> map ai_name (drop (length fc) defaultColors) = [''Dusty Rose'']) \<and>
         (list_all (\<lambda>c. ai_hex c \<noteq> None) fc \<longrightarrow>
            (\<exists>r. generateBasicAnalysis url (RaceResolves (Some obj)) rnd = Inr r)) \<and>
         (\<forall>r. generateBasicAnalysis url (RaceResolves (Some obj)) rnd = Inr r \<longrightarrow>
            map name (freeColors r) =
              map ai_name fc @ map ai_name (drop (length fc) defaultColors))"
proof -
  have ne: "fc \<noteq> []" using accepted_fields [OF assms] by blast
  then obtain n where n: "length fc = Suc n" by (cases fc) auto
  have "set (drop (length fc) defaultColors) \<subseteq> set (tl defaultColors)"
    unfolding n drop_Suc by (rule set_drop_subset)
  moreover have "''Classic Navy'' \<notin> ai_name ` set (tl defaultColors)"
    by (simp add: defaultColors_def)
  ultimately have navy: "''Classic Navy'' \<notin> set (map ai_name (drop (length fc) defaultColors))"
    by auto
  have names: "\<forall>r. generateBasicAnalysis url (RaceResolves (Some obj)) rnd = Inr r \<longrightarrow>
            map name (freeColors r) =
              map ai_name fc @ map ai_name (drop (length fc) defaultColors)"
  proof (intro allI impI)
    fix r
    assume "generateBasicAnalysis url (RaceResolves (Some obj)) rnd = Inr r"
    then have "fixHexColors (padFreeColors fc) = Inr (freeColors r)"
      using basic_accepted_result [OF assms] by blast
    then have "map name (freeColors r) = map ai_name (padFreeColors fc)"
      using fixHexColors_Inr by blast
    then show "map name (freeColors r) =
              map ai_name fc @ map ai_name (drop (length fc) defaultColors)"
      by (simp add: padFreeColors_eq)
  qed
  have ex: "list_all (\<lambda>c. ai_hex c \<noteq> None) fc \<longrightarrow>
      (\<exists>r. generateBasicAnalysis url (RaceResolves (Some obj)) rnd = Inr r)"
    using basic_accepted_total [OF assms] by blast
  have nm: "map ai_name defaultColors = [''Classic Navy'', ''Soft Cream'', ''Dusty Rose'']"
    "length fc = 1 \<longrightarrow>
       map ai_name (drop (length fc) defaultColors) = [''Soft Cream'', ''Dusty Rose'']"
    "length fc = 2 \<longrightarrow> map ai_name (drop (length fc) defaultColors) = [''Dusty Rose'']"
    by (simp_all add: defaultColors_def)
  show ?thesis
    using navy names ex nm padFreeColors_eq [of fc] by blast
qed

theorem padding_skips_first_default_witness:
  "padFreeColors [aiColor ''Rust'' ''abc''] =
     [aiColor ''Rust'' ''abc'', defaultColors ! 1, defaultColors ! 2] \<and>
   ai_name (defaultColors ! 1) = ''Soft Cream'' \<and> ai_name (defaultColors ! 2) = ''Dusty Rose''"
proof -
  have acc: "acceptedColors oneColorObject = Some [aiColor ''Rust'' ''abc'']"
    by (simp add: acceptedColors_def oneColorObject_def)
  show ?thesis
    using padding_skips_first_default [OF acc]
    by (simp add: defaultColors_def)
qed

text \<open>
  C3 (as stated). For every AI response the primary stage accepts, the returned result has
  exactly three free colours. This fails for a response with four colours: the loop only
  pads, nothing truncates.
\<close>

theorem free_colors_exactly_three_counterexample:
  "acceptedColors fourColorObject \<noteq> None \<and>
   \<not> isl (generateBasicAnalysis ''https://cdn.example/portrait.jpg''
            (RaceResolves (Some fourColorObject)) (1 / 4)) \<and>
   length (freeColors (projr (generateBasicAnalysis ''https://cdn.example/portrait.jpg''
            (RaceResolves (Some fourColorObject)) (1 / 4)))) = 4"
proof -
  have acc: "acceptedColors fourColorObject =
      Some [aiColor ''Ruby'' ''#9B111E'', aiColor ''Ink'' ''#1B1B3A'',
            aiColor ''Snow'' ''#FFFAFA'', aiColor ''Jade'' ''#00A86B'']"
    by (simp add: acceptedColors_def fourColorObject_def)
  have "\<exists>rs. fixHexColors (padFreeColors [aiColor ''Ruby'' ''#9B111E'', aiColor ''Ink'' ''#1B1B3A'',
            aiColor ''Snow'' ''#FFFAFA'', aiColor ''Jade'' ''#00A86B'']) = Inr rs"
    by (rule fixHexColors_total) (simp add: padFreeColors_eq aiColor_def defaultColors_def)
  then obtain rs where rs: "fixHexColors (padFreeColors [aiColor ''Ruby'' ''#9B111E'',
      aiColor ''Ink'' ''#1B1B3A'', aiColor ''Snow'' ''#FFFAFA'', aiColor ''Jade'' ''#00A86B'']) = Inr rs"
    by blast
  then have len: "length rs = 4"
    using fixHexColors_Inr [OF rs] by (simp add: length_padFreeColors)
  have "basicTryBlock (RaceResolves (Some fourColorObject)) (1 / 4) =
      Inr \<lparr>skinTone = ''cool'', season = ''Winter'', freeColors = rs, premiumColors = None,
           recommendations = o_recommendations fourColorObject, makeupTips = None,
           wardrobeGuide = None, seasonalDetails = None\<rparr>"
    using basic_accepted [OF acc, of "''cool''" "''Winter''" "1 / 4"] rs
    by (simp add: fourColorObject_def)
  then show ?thesis using acc len by (simp add: generateBasicAnalysis_def)
qed

text \<open>
  C3 (amended). For a response with an object the primary stage returns a result when the
  guard rejects the object (and \<open>Math.random()\<close> is in its range), and when the guard
  accepts it and every colour has a hex code. Whenever it returns a result, the result has
  at least three free colours: exactly three when the guard rejects the object (the
  fallback result), and the larger of three and the number of colours the model returned
  when the guard accepts it, so exactly three for one, two or three colours and all of them
  for more than three.
\<close>

theorem free_colors_at_least_three:
  "(acceptedColors obj = None \<and> 0 \<le> rnd \<and> rnd < 1 \<longrightarrow>
      (\<exists>r. generateBasicAnalysis url (RaceResolves (Some obj)) rnd = Inr r)) \<and>
   (\<forall>fc. acceptedColors obj = Some fc \<and> list_all (\<lambda>c. ai_hex c \<noteq> None) fc \<longrightarrow>
      (\<exists>r. generateBasicAnalysis url (RaceResolves (Some obj)) rnd = Inr r)) \<and>
   (\<forall>r. generateBasicAnalysis url (RaceResolves (Some obj)) rnd = Inr r \<longrightarrow>
      3 \<le> length (freeColors r) \<and>
      (acceptedColors obj = None \<longrightarrow> length (freeColors r) = 3) \<and>
      (\<forall>fc. acceptedColors obj = Some fc \<longrightarrow>
         length (freeColors r) = max 3 (length fc) \<and>
         (length fc \<le> 3 \<longrightarrow> length (freeColors r) = 3) \<and>
         (3 < length fc \<longrightarrow> length (freeColors r) = length fc)))"
proof (intro conjI allI impI)
  assume "acceptedColors obj = None \<and> 0 \<le> rnd \<and> rnd < 1"
  then show "\<exists>r. generateBasicAnalysis url (RaceResolves (Some obj)) rnd = Inr r"
    using basic_rejected_total by blast
next
  fix fc assume "acceptedColors obj = Some fc \<and> list_all (\<lambda>c. ai_hex c \<noteq> None) fc"
  then show "\<exists>r. generateBasicAnalysis url (RaceResolves (Some obj)) rnd = Inr r"
    using basic_accepted_total by blast
next
  fix r assume r: "generateBasicAnalysis url (RaceResolves (Some obj)) rnd = Inr r"
  have len: "(acceptedColors obj = None \<longrightarrow> length (freeColors r) = 3) \<and>
      (\<forall>fc. acceptedColors obj = Some fc \<longrightarrow> length (freeColors r) = max 3 (length fc))"
  proof (cases "acceptedColors obj")
    case None
    from r have "basicTryBlock (RaceResolves (Some obj)) rnd = Inr r"
      by (simp add: generateBasic_Inr)
    then have "generateFallbackAnalysis ''incomplete_ai_result'' rnd = Inr r"
      using basic_rejected [OF None] by simp
    then have "wellFormed r" using fallback_season by blast
    then show ?thesis using None by (simp add: wellFormed_def)
  next
    case (Some fc)
    have "fixHexColors (padFreeColors fc) = Inr (freeColors r)"
      using basic_accepted_result [OF Some r] by blast
    then have "length (freeColors r) = max 3 (length fc)"
      using fixHexColors_Inr length_padFreeColors by metis
    then show ?thesis using Some by simp
  qed
  show "3 \<le> length (freeColors r)"
    using len by (cases "acceptedColors obj") auto
  show "length (freeColors r) = 3" if "acceptedColors obj = None"
    using len that by blast
  show "length (freeColors r) = max 3 (length fc)" if "acceptedColors obj = Some fc" for fc
    using len that by blast
  show "length (freeColors r) = 3" if "acceptedColors obj = Some fc" "length fc \<le> 3" for fc
    using len that by auto
  show "length (freeColors r) = length fc" if "acceptedColors obj = Some fc" "3 < length fc" for fc
    using len that by auto
qed

theorem free_colors_at_least_three_witness:
  "\<not> isl (generateBasicAnalysis ''https://cdn.example/portrait.jpg''
      (RaceResolves (Some oneColorObject)) (1 / 4)) \<and>
   length (freeColors (projr (generateBasicAnalysis ''https://cdn.example/portrait.jpg''
      (RaceResolves (Some oneColorObject)) (1 / 4)))) = 3"
proof -
  let ?out = "generateBasicAnalysis ''https://cdn.example/portrait.jpg''
      (RaceResolves (Some oneColorObject)) (1 / 4)"
  have acc: "acceptedColors oneColorObject = Some [aiColor ''Rust'' ''abc'']"
    by (simp add: acceptedColors_def oneColorObject_def)
  have hx: "list_all (\<lambda>c. ai_hex c \<noteq> None) [aiColor ''Rust'' ''abc'']"
    by (simp add: aiColor_def)
  note w = free_colors_at_least_three
    [of oneColorObject "1 / 4" "''https://cdn.example/portrait.jpg''"]
  obtain r where r: "?out = Inr r" using w acc hx by blast
  then have "length (freeColors r) = 3" using w acc by auto
  then show ?thesis using r by simp
qed

section \<open>Upload with retry\<close>

lemma uploadLoop_three:
  "uploadLoop up 3 1 None =
     (case tryUpload (up 1) of
        Inr u \<Rightarrow> ([UploadAttempt 1], Inr u)
      | Inl e1 \<Rightarrow>
          (case tryUpload (up 2) of
             Inr u \<Rightarrow> ([UploadAttempt 1, Wait 2000, UploadAttempt 2], Inr u)
           | Inl e2 \<Rightarrow>
               (case tryUpload (up 3) of
                  Inr u \<Rightarrow>
                    ([UploadAttempt 1, Wait 2000, UploadAttempt 2, Wait 4000, UploadAttempt 3],
                     Inr u)
                | Inl e3 \<Rightarrow>
                    ([UploadAttempt 1, Wait 2000, UploadAttempt 2, Wait 4000, UploadAttempt 3],
                     Inl (JsError (''Upload failed after 3 attempts: '' @
                            (case e3 of JsError m \<Rightarrow> m | NonError \<Rightarrow> ''Upload failed'')))))))"
proof -
  have four: "\<And>l. uploadLoop up 3 4 l =
      ([], Inl (JsError (''Upload failed after 3 attempts: '' @
                  (case l of Some m \<Rightarrow> m | None \<Rightarrow> ''undefined''))))"
    by (subst uploadLoop.simps) (simp add: showNat_digit)
  have three: "\<And>l. uploadLoop up 3 3 l =
      (case tryUpload (up 3) of
         Inr u \<Rightarrow> ([UploadAttempt 3], Inr u)
       | Inl e3 \<Rightarrow>
           ([UploadAttempt 3],
            Inl (JsError (''Upload failed after 3 attempts: '' @
                   (case e3 of JsError m \<Rightarrow> m | NonError \<Rightarrow> ''Upload failed'')))))"
    by (subst uploadLoop.simps) (simp add: four Let_def split: sum.splits)
  have two: "\<And>l. uploadLoop up 3 2 l =
      (case tryUpload (up 2) of
         Inr u \<Rightarrow> ([UploadAttempt 2], Inr u)
       | Inl e2 \<Rightarrow>
           (case tryUpload (up 3) of
              Inr u \<Rightarrow> ([UploadAttempt 2, Wait 4000, UploadAttempt 3], Inr u)
            | Inl e3 \<Rightarrow>
                ([UploadAttempt 2, Wait 4000, UploadAttempt 3],
                 Inl (JsError (''Upload failed after 3 attempts: '' @
                        (case e3 of JsError m \<Rightarrow> m | NonError \<Rightarrow> ''Upload failed''))))))"
    by (subst uploadLoop.simps) (simp add: three Let_def split: sum.splits)
  show ?thesis
    by (subst uploadLoop.simps) (simp add: two Let_def del: One_nat_def split: sum.splits)
qed

lemma attempts_bound:
  "length (filter isAttempt (fst (uploadLoop up m a l))) \<le> Suc m - a"
proof (induction up m a l rule: uploadLoop.induct)
  case (1 up maxRetries attempt lastError)
  show ?case
  proof (cases "attempt \<le> maxRetries")
    case False
    then show ?thesis by (subst uploadLoop.simps) simp
  next
    case le: True
    show ?thesis
    proof (cases "tryUpload (up attempt)")
      case (Inr u)
      with le show ?thesis by (subst uploadLoop.simps) (simp add: isAttempt_def)
    next
      case (Inl err)
      let ?msg = "case err of JsError m \<Rightarrow> m | NonError \<Rightarrow> ''Upload failed''"
      have ih: "length (filter isAttempt (fst (uploadLoop up maxRetries (attempt + 1) (Some ?msg))))
          \<le> Suc maxRetries - (attempt + 1)"
        using 1 [OF le Inl] by simp
      show ?thesis
        using le Inl ih
        by (subst uploadLoop.simps) (simp add: Let_def isAttempt_def)
    qed
  qed
qed

lemma upload_size_ok:
  "0 < file_size file \<Longrightarrow> file_size file \<le> 15 * 1024 * 1024 \<Longrightarrow>
     uploadWithRetry file userId m up = uploadLoop up m 1 None"
  by (simp add: uploadWithRetry_def)

text \<open>
  C6. For a file that passes the size checks, \<open>uploadWithRetry\<close> with its default of three
  retries attempts the upload at most three times. After a failed first attempt it waits
  \<open>2 ^ 1 * 1000 = 2000\<close> ms and after a failed second attempt \<open>2 ^ 2 * 1000 = 4000\<close> ms;
  it does not wait after the third. It returns the URL of the first attempt that succeeds,
  and when all three fail it raises an error whose message holds the attempt count 3 and
  the message of the last failure.
\<close>

theorem upload_retry_backoff:
  assumes "0 < file_size file" and "file_size file \<le> 15 * 1024 * 1024"
  shows "length (filter isAttempt (fst (uploadWithRetry file userId 3 up))) \<le> 3 \<and>
         uploadWithRetry file userId 3 up =
           (case tryUpload (up 1) of
              Inr u \<Rightarrow> ([UploadAttempt 1], Inr u)
            | Inl e1 \<Rightarrow>
                (case tryUpload (up 2) of
                   Inr u \<Rightarrow> ([UploadAttempt 1, Wait (2 ^ 1 * 1000), UploadAttempt 2], Inr u)
                 | Inl e2 \<Rightarrow>
                     (case tryUpload (up 3) of
                        Inr u \<Rightarrow>
                          ([UploadAttempt 1, Wait (2 ^ 1 * 1000), UploadAttempt 2,
                            Wait (2 ^ 2 * 1000), UploadAttempt 3], Inr u)
                      | Inl e3 \<Rightarrow>
                          ([UploadAttempt 1, Wait (2 ^ 1 * 1000), UploadAttempt 2,
                            Wait (2 ^ 2 * 1000), UploadAttempt 3],
                           Inl (JsError (''Upload failed after 3 attempts: '' @
                                  (case e3 of JsError m \<Rightarrow> m
                                   | NonError \<Rightarrow> ''Upload failed'')))))))"
proof -
  have eq: "uploadWithRetry file userId 3 up = uploadLoop up 3 1 None"
    using assms by (rule upload_size_ok)
  have "length (filter isAttempt (fst (uploadLoop up 3 1 None))) \<le> Suc 3 - 1"
    by (rule attempts_bound)
  then have "length (filter isAttempt (fst (uploadWithRetry file userId 3 up))) \<le> 3"
    using eq by simp
  then show ?thesis
    unfolding eq uploadLoop_three by (simp split: sum.splits)
qed

theorem upload_retry_backoff_witness:
  "uploadWithRetry sampleFile ''user-1'' 3 flakyUpload =
     ([UploadAttempt 1, Wait 2000, UploadAttempt 2, Wait 4000, UploadAttempt 3],
      Inr ''https://cdn.example/portrait.jpg'') \<and>
   uploadWithRetry sampleFile ''user-1'' 3 deadUpload =
     ([UploadAttempt 1, Wait 2000, UploadAttempt 2, Wait 4000, UploadAttempt 3],
      Inl (JsError ''Upload failed after 3 attempts: Storage quota exceeded''))"
proof -
  have s: "0 < file_size sampleFile" "file_size sampleFile \<le> 15 * 1024 * 1024"
    by (simp_all add: sampleFile_def)
  show ?thesis
    using upload_retry_backoff [OF s, of "''user-1''" flakyUpload]
      upload_retry_backoff [OF s, of "''user-1''" deadUpload]
    by (simp add: flakyUpload_def deadUpload_def tryUpload_def startsWith_def)
qed

text \<open>
  C8 (as stated). The upload stage rejects a file with an empty name. It does not: a
  nameless file of 1024 bytes goes to the first upload attempt and its URL is returned.
\<close>

theorem empty_name_rejected_counterexample:
  "file_name namelessFile = [] \<and>
   uploadWithRetry namelessFile ''user-1'' 3 okUpload =
     ([UploadAttempt 1], Inr ''https://cdn.example/portrait.jpg'')"
proof -
  have "uploadWithRetry namelessFile ''user-1'' 3 okUpload = uploadLoop okUpload 3 1 None"
    by (rule upload_size_ok) (simp_all add: namelessFile_def)
  then show ?thesis
    unfolding uploadLoop_three
    by (simp add: namelessFile_def okUpload_def tryUpload_def startsWith_def)
qed

text \<open>
  C8 (amended). The upload stage checks the size before any upload attempt: a file of size 0
  and a file larger than 15 MiB are rejected with a validation error and an empty trace; a
  file of 14 MiB passes the size check, so the stage goes on to its first upload attempt.
  The name of the file is not checked: the outcome does not depend on it.
\<close>

theorem upload_size_preconditions:
  "(file_size file = 0 \<longrightarrow>
      uploadWithRetry file userId m up = ([], Inl (JsError ''Please select a valid image file''))) \<and>
   (15 * 1024 * 1024 < file_size file \<longrightarrow>
      uploadWithRetry file userId m up =
        ([], Inl (JsError ''File too large: Maximum size is 15MB''))) \<and>
   (file_size file = 14 * 1024 * 1024 \<longrightarrow>
      uploadWithRetry file userId 3 up = uploadLoop up 3 1 None \<and>
      hd (fst (uploadWithRetry file userId 3 up)) = UploadAttempt 1) \<and>
   uploadWithRetry (file\<lparr>file_name := n\<rparr>) userId m up = uploadWithRetry file userId m up"
proof -
  have "hd (fst (uploadLoop up 3 1 None)) = UploadAttempt 1"
    unfolding uploadLoop_three by (simp split: sum.splits)
  then show ?thesis by (simp add: uploadWithRetry_def)
qed

theorem upload_size_preconditions_witness:
  "uploadWithRetry emptyFile ''user-1'' 3 okUpload =
     ([], Inl (JsError ''Please select a valid image file'')) \<and>
   uploadWithRetry (sampleFile\<lparr>file_size := 16 * 1024 * 1024\<rparr>) ''user-1'' 3 okUpload =
     ([], Inl (JsError ''File too large: Maximum size is 15MB'')) \<and>
   hd (fst (uploadWithRetry (sampleFile\<lparr>file_size := 14 * 1024 * 1024\<rparr>) ''user-1'' 3 okUpload)) =
     UploadAttempt 1"
proof -
  have e: "file_size emptyFile = 0" by (simp add: emptyFile_def)
  have b: "15 * 1024 * 1024 < file_size (sampleFile\<lparr>file_size := 16 * 1024 * 1024\<rparr>)"
    by simp
  have c: "file_size (sampleFile\<lparr>file_size := 14 * 1024 * 1024\<rparr>) = 14 * 1024 * 1024"
    by simp
  have "uploadWithRetry emptyFile ''user-1'' 3 okUpload =
     ([], Inl (JsError ''Please select a valid image file''))"
    using upload_size_preconditions [of emptyFile "''user-1''" 3 okUpload] e by blast
  moreover have
    "uploadWithRetry (sampleFile\<lparr>file_size := 16 * 1024 * 1024\<rparr>) ''user-1'' 3 okUpload =
       ([], Inl (JsError ''File too large: Maximum size is 15MB''))"
    using upload_size_preconditions
      [of "sampleFile\<lparr>file_size := 16 * 1024 * 1024\<rparr>" "''user-1''" 3 okUpload] b
    by blast
  moreover have
    "hd (fst (uploadWithRetry (sampleFile\<lparr>file_size := 14 * 1024 * 1024\<rparr>) ''user-1'' 3
       okUpload)) = UploadAttempt 1"
    using upload_size_preconditions
      [of "sampleFile\<lparr>file_size := 14 * 1024 * 1024\<rparr>" "''user-1''" 3 okUpload] c
    by blast
  ultimately show ?thesis by blast
qed

section \<open>Claims about the fallback palette, hex validity and the season\<close>

lemma table_spec:
  assumes "base \<in> {springColors, summerColors, autumnColors, winterColors}"
  shows "list_all2 specLight base (map lightVariant base) \<and>
         list_all2 specDeep base (map deepVariant base)"
  using assms light_spring deep_spring light_summer deep_summer light_autumn deep_autumn
    light_winter deep_winter
  by auto

lemma seasonColors_of_season:
  "s \<in> set seasons \<Longrightarrow>
     \<exists>base. seasonColors s = Some base \<and>
       base \<in> {springColors, summerColors, autumnColors, winterColors}"
  by (auto simp add: seasons_def seasonColors_keys)

text \<open>
  C9. For every basic result whose season is one of the four keys of the table,
  \<open>generateFallbackPremiumData\<close> returns fifteen premium colours: first the five base
  colours of the season, then their five Light variants, each named \<open>Light\<close> and the base
  name, with every RGB channel of the base colour raised by 40 and clamped to the range from
  0 to 255, in category soft, then their five Deep variants, each channel lowered by 40 and
  clamped, in category statement. Taking the first 24 of them changes nothing.
\<close>

theorem fallback_premium_palette:
  assumes "season b \<in> set seasons"
  shows "\<exists>base ps r.
           seasonColors (season b) = Some base \<and> length base = 5 \<and>
           generateFallbackPremiumData b = Inr r \<and> premiumColors r = Some ps \<and>
           length ps = 15 \<and> take 5 ps = base \<and>
           list_all2 specLight base (take 5 (drop 5 ps)) \<and>
           list_all2 specDeep base (drop 10 ps) \<and>
           ps = expandedPalette base \<and> take 24 (expandedPalette base) = expandedPalette base"
proof -
  obtain base where base: "seasonColors (season b) = Some base"
    "base \<in> {springColors, summerColors, autumnColors, winterColors}"
    using seasonColors_of_season [OF assms] by blast
  have len: "length base = 5" using valid_tables [OF base(2)] by simp
  have "season b \<notin> set objectPrototypeKeys" using assms by (rule seasons_not_prototype)
  then have r: "generateFallbackPremiumData b =
      Inr (b\<lparr>premiumColors := Some (expandedPalette base),
             makeupTips := Some (fallbackMakeupTips (season b)),
             wardrobeGuide := Some fallbackWardrobeGuide,
             seasonalDetails := Some (fallbackSeasonalDetails (season b))\<rparr>)"
    using fallbackPremium_result [of b] base(1) by simp
  show ?thesis
    using base(1) len r table_spec [OF base(2)] expandedPalette_parts [OF len]
    by simp
qed

theorem fallback_premium_palette_witness:
  "map_option (map hex) (premiumColors (projr (generateFallbackPremiumData (fallbackBasic ''Winter'')))) =
     Some [''#FF0000'', ''#4169E1'', ''#FFFFFF'', ''#000000'', ''#50C878'',
           ''#ff2828'', ''#6991ff'', ''#ffffff'', ''#282828'', ''#78f0a0'',
           ''#d70000'', ''#1941b9'', ''#d7d7d7'', ''#000000'', ''#28a050'']"
proof -
  have s: "season (fallbackBasic ''Winter'') \<in> set seasons"
    by (simp add: fallbackBasic_def seasons_def)
  have w: "seasonColors (season (fallbackBasic ''Winter'')) = Some winterColors"
    by (simp add: fallbackBasic_def seasonColors_keys)
  have "map hex (expandedPalette winterColors) =
     [''#FF0000'', ''#4169E1'', ''#FFFFFF'', ''#000000'', ''#50C878'',
      ''#ff2828'', ''#6991ff'', ''#ffffff'', ''#282828'', ''#78f0a0'',
      ''#d70000'', ''#1941b9'', ''#d7d7d7'', ''#000000'', ''#28a050'']"
    unfolding winterColors_def expandedPalette_def lightVariant_def deepVariant_def mkColor_def
    by (simp add: lighten_winter darken_winter)
  then show ?thesis
    using fallback_premium_palette [OF s] w by auto
qed

section \<open>A run with an unknown season and a malformed hex\<close>

lemma upload_ok:
  assumes "0 < file_size file" and "file_size file \<le> 15 * 1024 * 1024"
  shows "uploadWithRetry file userId 3 okUpload =
           ([UploadAttempt 1], Inr ''https://cdn.example/portrait.jpg'')"
  unfolding upload_size_ok [OF assms] uploadLoop_three
  by (simp add: okUpload_def tryUpload_def startsWith_def)

lemma sampleFile_size: "0 < file_size sampleFile" "file_size sampleFile \<le> 15 * 1024 * 1024"
  by (simp_all add: sampleFile_def)

lemma basic_monsoonObject:
  "generateBasicAnalysis url (RaceResolves (Some monsoonObject)) rnd =
     Inr \<lparr>skinTone = ''neutral'', season = ''Monsoon'',
          freeColors =
            [mkColor ''Brick'' ''#rreedd'' ''Suits warm undertones'' None,
             mkColor ''Ink'' ''#1B1B3A'' ''Suits warm undertones'' None,
             mkColor ''Snow'' ''#FFFAFA'' ''Suits warm undertones'' None],
          premiumColors = None,
          recommendations =
            Some [''Wear clear colors'', ''Prefer silver jewelry'', ''Avoid muted tones''],
          makeupTips = None, wardrobeGuide = None, seasonalDetails = None\<rparr>"
proof -
  have f: "o_skinTone monsoonObject = Some ''neutral''" "o_season monsoonObject = Some ''Monsoon''"
    "o_recommendations monsoonObject =
       Some [''Wear clear colors'', ''Prefer silver jewelry'', ''Avoid muted tones'']"
    by (simp_all add: monsoonObject_def)
  have acc: "acceptedColors monsoonObject =
      Some [aiColor ''Brick'' ''red'', aiColor ''Ink'' ''#1B1B3A'', aiColor ''Snow'' ''#FFFAFA'']"
    by (simp add: acceptedColors_def monsoonObject_def)
  have pad: "padFreeColors [aiColor ''Brick'' ''red'', aiColor ''Ink'' ''#1B1B3A'',
      aiColor ''Snow'' ''#FFFAFA''] =
      [aiColor ''Brick'' ''red'', aiColor ''Ink'' ''#1B1B3A'', aiColor ''Snow'' ''#FFFAFA'']"
    by (simp add: padFreeColors_eq defaultColors_def)
  have hx: "fixHex ''red'' = ''#rreedd''" "fixHex ''#1B1B3A'' = ''#1B1B3A''"
    "fixHex ''#FFFAFA'' = ''#FFFAFA''"
    by (simp_all add: fixHex_def matchesHex6_def startsWith_def isHexDigit_def hexDigitValue_def)
  have fx: "fixHexColors [aiColor ''Brick'' ''red'', aiColor ''Ink'' ''#1B1B3A'',
      aiColor ''Snow'' ''#FFFAFA''] =
      Inr [mkColor ''Brick'' ''#rreedd'' ''Suits warm undertones'' None,
           mkColor ''Ink'' ''#1B1B3A'' ''Suits warm undertones'' None,
           mkColor ''Snow'' ''#FFFAFA'' ''Suits warm undertones'' None]"
    by (simp add: aiColor_def hx)
  show ?thesis
    unfolding generateBasicAnalysis_def basic_accepted [OF acc f(1) f(2)] pad fx
    by (simp add: f(3))
qed

lemma monsoon_run:
  "analyzePhotoWithAI sampleFile ''user-1'' monsoonEnv =
     Inr \<lparr>skinTone = ''neutral'', season = ''Monsoon'',
          freeColors =
            [mkColor ''Brick'' ''#rreedd'' ''Suits warm undertones'' None,
             mkColor ''Ink'' ''#1B1B3A'' ''Suits warm undertones'' None,
             mkColor ''Snow'' ''#FFFAFA'' ''Suits warm undertones'' None],
          premiumColors = Some (expandedPalette springColors),
          recommendations =
            Some [''Wear clear colors'', ''Prefer silver jewelry'', ''Avoid muted tones''],
          makeupTips = Some (fallbackMakeupTips ''Monsoon''),
          wardrobeGuide = Some fallbackWardrobeGuide,
          seasonalDetails = Some (fallbackSeasonalDetails ''Monsoon'')\<rparr>"
proof -
  let ?basic = "\<lparr>skinTone = ''neutral'', season = ''Monsoon'',
          freeColors =
            [mkColor ''Brick'' ''#rreedd'' ''Suits warm undertones'' None,
             mkColor ''Ink'' ''#1B1B3A'' ''Suits warm undertones'' None,
             mkColor ''Snow'' ''#FFFAFA'' ''Suits warm undertones'' None],
          premiumColors = None,
          recommendations =
            Some [''Wear clear colors'', ''Prefer silver jewelry'', ''Avoid muted tones''],
          makeupTips = None, wardrobeGuide = None, seasonalDetails = None\<rparr>"
  have np: "season ?basic \<notin> set objectPrototypeKeys"
    by (simp add: objectPrototypeKeys_def)
  have sc: "seasonColors (season ?basic) = None"
    by (simp add: seasonColors_def)
  have prem: "generateFallbackPremiumData ?basic =
      Inr (?basic\<lparr>premiumColors := Some (expandedPalette springColors),
             makeupTips := Some (fallbackMakeupTips ''Monsoon''),
             wardrobeGuide := Some fallbackWardrobeGuide,
             seasonalDetails := Some (fallbackSeasonalDetails ''Monsoon'')\<rparr>)"
    using fallbackPremium_result [OF np] sc by simp
  have tb: "tryBlock sampleFile ''user-1'' monsoonEnv =
      Inr (?basic\<lparr>premiumColors := Some (expandedPalette springColors),
             makeupTips := Some (fallbackMakeupTips ''Monsoon''),
             wardrobeGuide := Some fallbackWardrobeGuide,
             seasonalDetails := Some (fallbackSeasonalDetails ''Monsoon'')\<rparr>)"
    unfolding tryBlock_def monsoonEnv_def sampleEnv_def
    by (simp add: upload_ok [OF sampleFile_size] headCheck_def basic_monsoonObject
        generateEnhancedAnalysis_def prem)
  show ?thesis unfolding analyzePhotoWithAI_def tb by simp
qed

lemma defaults_repairable:
  "list_all (\<lambda>c. case ai_hex c of None \<Rightarrow> False | Some h \<Rightarrow> repairableHex h)
     (drop n defaultColors)"
proof -
  have "list_all (\<lambda>c. case ai_hex c of None \<Rightarrow> False | Some h \<Rightarrow> repairableHex h) defaultColors"
    by (simp add: defaultColors_def repairableHex_def matchesHex6_def isHexDigit_def
        hexDigitValue_def)
  then show ?thesis
    using set_drop_subset [of n defaultColors] by (auto simp add: list_all_iff)
qed

text \<open>
  C4 (as stated). Every colour of every result has a valid hex code. In the run
  \<open>monsoonEnv\<close> the model returns the hex \<open>red\<close>; the repair turns it into \<open>#rreedd\<close>, which does not match
  the pattern, and the pipeline returns it.
\<close>

theorem all_hex_valid_counterexample:
  "\<not> isl (analyzePhotoWithAI sampleFile ''user-1'' monsoonEnv) \<and>
   map hex (freeColors (projr (analyzePhotoWithAI sampleFile ''user-1'' monsoonEnv))) =
     [''#rreedd'', ''#1B1B3A'', ''#FFFAFA''] \<and>
   \<not> matchesHex6 ''#rreedd'' \<and>
   \<not> hexesValid (freeColors (projr (analyzePhotoWithAI sampleFile ''user-1'' monsoonEnv)))"
  unfolding monsoon_run
  by (simp add: mkColor_def hexesValid_def matchesHex6_def isHexDigit_def hexDigitValue_def)

text \<open>
  C4 (amended). Every colour in a result of the fallback generator has a valid hex code:
  the free and premium colours of \<open>generateFallbackAnalysis\<close>, and the premium colours that
  \<open>generateFallbackPremiumData\<close> adds to any basic result. The repair of the primary stage
  yields a valid code exactly for a code that is already valid, for six hex digits without
  \<open>#\<close>, and for three hex digits with or without \<open>#\<close>; so the free colours the stage returns
  for an accepted object are all valid exactly when every colour of the model has one of
  these forms. Any other code is returned as repaired, not rejected. The premium colours of
  a successful enrichment call are returned as the model gave them.
\<close>

theorem hex_validity_by_path:
  "(\<forall>r. generateFallbackAnalysis fileName rnd = Inr r \<longrightarrow>
      hexesValid (freeColors r) \<and> (\<exists>ps. premiumColors r = Some ps \<and> hexesValid ps)) \<and>
   (\<forall>r. generateFallbackPremiumData b = Inr r \<longrightarrow>
      (\<exists>ps. premiumColors r = Some ps \<and> hexesValid ps)) \<and>
   matchesHex6 (fixHex h) = repairableHex h \<and>
   (\<forall>fc r. acceptedColors obj = Some fc \<and>
        generateBasicAnalysis url (RaceResolves (Some obj)) rnd = Inr r \<longrightarrow>
      hexesValid (freeColors r) =
        list_all (\<lambda>c. case ai_hex c of None \<Rightarrow> False | Some h \<Rightarrow> repairableHex h) fc) \<and>
   (\<forall>ps r. e_premiumColors eo = Some ps \<and>
        generateEnhancedAnalysis b (EnhResolves (Some eo)) = Inr r \<longrightarrow>
      premiumColors r = Some ps)"
proof (intro conjI allI impI)
  fix r assume a: "generateFallbackAnalysis fileName rnd = Inr r"
  then have "wellFormed r" using fallback_season by blast
  then show "hexesValid (freeColors r)" "\<exists>ps. premiumColors r = Some ps \<and> hexesValid ps"
    by (auto simp add: wellFormed_def split: option.splits)
next
  fix r assume a: "generateFallbackPremiumData b = Inr r"
  let ?base = "case seasonColors (season b) of Some cs \<Rightarrow> cs | None \<Rightarrow> springColors"
  have "premiumColors r = Some (expandedPalette ?base)"
    using a fallbackPremium_cases [of b] by auto
  moreover have "hexesValid (expandedPalette ?base)"
    using baseColors_cases [of "season b"] valid_tables by blast
  ultimately show "\<exists>ps. premiumColors r = Some ps \<and> hexesValid ps" by blast
next
  show "matchesHex6 (fixHex h) = repairableHex h" by (rule fixHex_valid_iff)
next
  fix fc r
  assume a: "acceptedColors obj = Some fc \<and>
    generateBasicAnalysis url (RaceResolves (Some obj)) rnd = Inr r"
  then have "fixHexColors (padFreeColors fc) = Inr (freeColors r)"
    using basic_accepted_result by blast
  then have "hexesValid (freeColors r) =
      list_all (\<lambda>c. case ai_hex c of None \<Rightarrow> False | Some h \<Rightarrow> repairableHex h)
        (padFreeColors fc)"
    by (rule fixHexColors_valid)
  then show "hexesValid (freeColors r) =
      list_all (\<lambda>c. case ai_hex c of None \<Rightarrow> False | Some h \<Rightarrow> repairableHex h) fc"
    using defaults_repairable [of "length fc"] by (simp add: padFreeColors_eq)
next
  fix ps r
  assume "e_premiumColors eo = Some ps \<and>
    generateEnhancedAnalysis b (EnhResolves (Some eo)) = Inr r"
  then show "premiumColors r = Some ps"
    by (auto simp add: generateEnhancedAnalysis_def mergeEnhanced_def)
qed

theorem hex_validity_by_path_witness:
  "hexesValid (freeColors (projr (generateBasicAnalysis ''https://cdn.example/portrait.jpg''
      (RaceResolves (Some twoColorObject)) (1 / 4)))) \<and>
   matchesHex6 (fixHex ''abc'')"
proof -
  have r: "list_all (\<lambda>c. case ai_hex c of None \<Rightarrow> False | Some h \<Rightarrow> repairableHex h)
      [aiColor ''Rust'' ''abc'', aiColor ''Moss'' ''123456'']"
    by (simp add: aiColor_def repairableHex_def matchesHex6_def isHexDigit_def hexDigitValue_def)
  have "repairableHex ''abc''"
    by (simp add: repairableHex_def matchesHex6_def isHexDigit_def hexDigitValue_def)
  then show ?thesis
    using hex_validity_by_path [of "''portrait.jpg''" "1 / 4" "fallbackBasic ''Spring''" "''abc''"
        twoColorObject "''https://cdn.example/portrait.jpg''"]
      twoColorObject_accepted r
      basic_twoColorObject [of "''https://cdn.example/portrait.jpg''" "1 / 4"]
    by auto
qed




section \<open>Claims about error handling in the pipeline\<close>

lemma analyze_on_error:
  "isl (tryBlock file userId e) \<Longrightarrow>
     analyzePhotoWithAI file userId e = generateFallbackAnalysis (file_name file) (random_top e)"
  by (cases "tryBlock file userId e") (simp_all add: analyzePhotoWithAI_def)

lemma analyze_total:
  assumes "0 \<le> random_top e" and "random_top e < 1"
  shows "\<exists>r. analyzePhotoWithAI file userId e = Inr r"
proof (cases "tryBlock file userId e")
  case (Inl err)
  then show ?thesis
    using fallback_total [OF assms, of "file_name file"] by (auto simp add: analyzePhotoWithAI_def)
next
  case (Inr r)
  then show ?thesis by (simp add: analyzePhotoWithAI_def)
qed


lemma tryBlock_upload_error:
  "isl (snd (uploadWithRetry file userId 3 (storage_upload e))) \<Longrightarrow> isl (tryBlock file userId e)"
  by (cases "snd (uploadWithRetry file userId 3 (storage_upload e))") (simp_all add: tryBlock_def)







text \<open>
  C2 (as stated). A call of \<open>analyzePhotoWithAI\<close> with a file of 0 bytes raises the
  validation error to the caller. It does not: \<open>uploadWithRetry\<close> raises the error, and
  \<open>analyzePhotoWithAI\<close>, which calls it inside its \<open>try\<close> block, returns a fallback result.
\<close>

theorem empty_file_error_reaches_caller_counterexample:
  "file_size emptyFile = 0 \<and>
   snd (uploadWithRetry emptyFile ''user-1'' 3 (storage_upload healthyEnv)) =
     Inl (JsError ''Please select a valid image file'') \<and>
   \<not> isl (analyzePhotoWithAI emptyFile ''user-1'' healthyEnv) \<and>
   analyzePhotoWithAI emptyFile ''user-1'' healthyEnv =
     generateFallbackAnalysis ''empty.jpg'' (1 / 2) \<and>
   season (projr (analyzePhotoWithAI emptyFile ''user-1'' healthyEnv)) = ''Autumn''"
proof -
  have u: "snd (uploadWithRetry emptyFile ''user-1'' 3 (storage_upload healthyEnv)) =
      Inl (JsError ''Please select a valid image file'')"
    by (simp add: uploadWithRetry_def emptyFile_def)
  then have "isl (tryBlock emptyFile ''user-1'' healthyEnv)"
    using tryBlock_upload_error [of emptyFile "''user-1''" healthyEnv] by simp
  then have a: "analyzePhotoWithAI emptyFile ''user-1'' healthyEnv =
      generateFallbackAnalysis ''empty.jpg'' (1 / 2)"
    using analyze_on_error [of emptyFile "''user-1''" healthyEnv]
    by (simp add: emptyFile_def healthyEnv_def sampleEnv_def)
  obtain r where r: "generateFallbackAnalysis ''empty.jpg'' (1 / 2) = Inr r" "wellFormed r"
    using fallback_total [of "1 / 2" "''empty.jpg''"] by auto
  have "generateFallbackPremiumData (fallbackBasic ''Autumn'') = Inr r"
    using r(1) by (simp add: generateFallbackAnalysis_def Let_def seasons_def)
  then have "season r = ''Autumn''"
    using fallbackPremium_cases [of "fallbackBasic ''Autumn''"]
    by (auto simp add: fallbackBasic_def)
  then show ?thesis using u a r by (simp add: emptyFile_def)
qed

text \<open>
  C2 (amended). No error reaches the caller of \<open>analyzePhotoWithAI\<close>, for every value of
  \<open>Math.random()\<close> in its range. \<open>uploadWithRetry\<close> raises a validation error for an empty
  file and for a file larger than 15 MiB, and after three failed attempts an error that
  carries the last cause; \<open>analyzePhotoWithAI\<close> absorbs each of them, like every failure
  after the upload, into the result of the fallback generator.
\<close>

theorem upload_errors_absorbed:
  assumes "0 \<le> random_top e" and "random_top e < 1"
  shows "(file_size file = 0 \<longrightarrow>
            snd (uploadWithRetry file userId 3 (storage_upload e)) =
              Inl (JsError ''Please select a valid image file'')) \<and>
         (15 * 1024 * 1024 < file_size file \<longrightarrow>
            snd (uploadWithRetry file userId 3 (storage_upload e)) =
              Inl (JsError ''File too large: Maximum size is 15MB'')) \<and>
         (0 < file_size file \<and> file_size file \<le> 15 * 1024 * 1024 \<and>
          isl (tryUpload (storage_upload e 1)) \<and> isl (tryUpload (storage_upload e 2)) \<and>
          isl (tryUpload (storage_upload e 3)) \<longrightarrow>
            snd (uploadWithRetry file userId 3 (storage_upload e)) =
              Inl (JsError (''Upload failed after 3 attempts: '' @
                     (case projl (tryUpload (storage_upload e 3)) of
                        JsError m \<Rightarrow> m | NonError \<Rightarrow> ''Upload failed'')))) \<and>
         (isl (snd (uploadWithRetry file userId 3 (storage_upload e))) \<longrightarrow>
            analyzePhotoWithAI file userId e =
              generateFallbackAnalysis (file_name file) (random_top e)) \<and>
         \<not> isl (analyzePhotoWithAI file userId e)"
proof (intro conjI impI)
  assume "file_size file = 0"
  then show "snd (uploadWithRetry file userId 3 (storage_upload e)) =
      Inl (JsError ''Please select a valid image file'')"
    by (simp add: uploadWithRetry_def)
next
  assume "15 * 1024 * 1024 < file_size file"
  then show "snd (uploadWithRetry file userId 3 (storage_upload e)) =
      Inl (JsError ''File too large: Maximum size is 15MB'')"
    by (simp add: uploadWithRetry_def)
next
  assume a: "0 < file_size file \<and> file_size file \<le> 15 * 1024 * 1024 \<and>
    isl (tryUpload (storage_upload e 1)) \<and> isl (tryUpload (storage_upload e 2)) \<and>
    isl (tryUpload (storage_upload e 3))"
  then have "uploadWithRetry file userId 3 (storage_upload e) =
      uploadLoop (storage_upload e) 3 1 None"
    using upload_size_ok by blast
  then show "snd (uploadWithRetry file userId 3 (storage_upload e)) =
      Inl (JsError (''Upload failed after 3 attempts: '' @
             (case projl (tryUpload (storage_upload e 3)) of
                JsError m \<Rightarrow> m | NonError \<Rightarrow> ''Upload failed'')))"
    using a unfolding uploadLoop_three by (auto split: sum.splits)
next
  assume "isl (snd (uploadWithRetry file userId 3 (storage_upload e)))"
  then show "analyzePhotoWithAI file userId e =
      generateFallbackAnalysis (file_name file) (random_top e)"
    using tryBlock_upload_error analyze_on_error by blast
next
  show "\<not> isl (analyzePhotoWithAI file userId e)"
    using analyze_total [OF assms, of "file" userId] by auto
qed

theorem upload_errors_absorbed_witness:
  "snd (uploadWithRetry sampleFile ''user-1'' 3 deadUpload) =
     Inl (JsError ''Upload failed after 3 attempts: Storage quota exceeded'') \<and>
   analyzePhotoWithAI sampleFile ''user-1'' (healthyEnv\<lparr>storage_upload := deadUpload\<rparr>) =
     generateFallbackAnalysis ''portrait.jpg'' (1 / 2) \<and>
   \<not> isl (analyzePhotoWithAI sampleFile ''user-1'' (healthyEnv\<lparr>storage_upload := deadUpload\<rparr>))"
proof -
  let ?e = "healthyEnv\<lparr>storage_upload := deadUpload\<rparr>"
  have c: "0 \<le> random_top ?e" "random_top ?e < 1"
    by (simp_all add: healthyEnv_def sampleEnv_def)
  have f: "isl (tryUpload (storage_upload ?e 1))" "isl (tryUpload (storage_upload ?e 2))"
    "isl (tryUpload (storage_upload ?e 3))"
    "projl (tryUpload (storage_upload ?e 3)) = JsError ''Storage quota exceeded''"
    by (simp_all add: deadUpload_def tryUpload_def)
  have s: "storage_upload ?e = deadUpload" "random_top ?e = 1 / 2"
    "file_name sampleFile = ''portrait.jpg''"
    by (simp_all add: healthyEnv_def sampleEnv_def sampleFile_def)
  note w = upload_errors_absorbed [OF c, of sampleFile "''user-1''", unfolded s]
  have 1: "snd (uploadWithRetry sampleFile ''user-1'' 3 deadUpload) =
      Inl (JsError ''Upload failed after 3 attempts: Storage quota exceeded'')"
    using w f sampleFile_size unfolding s by simp
  then have "isl (snd (uploadWithRetry sampleFile ''user-1'' 3 deadUpload))" by simp
  then have 2: "analyzePhotoWithAI sampleFile ''user-1'' ?e =
      generateFallbackAnalysis ''portrait.jpg'' (1 / 2)"
    using w by blast
  have 3: "\<not> isl (analyzePhotoWithAI sampleFile ''user-1'' ?e)"
    using w by blast
  show ?thesis using 1 2 3 by blast
qed

end
